theory Spec2Isabelle
  imports Main "HOL-Library.Char_ord" "HOL-Library.List_Lexorder"
begin

section \<open>Status values\<close>

text \<open>
  The status codes of \<open>absl::Status\<close> and of \<open>grpc::Status\<close>. Both libraries number
  their codes alike; the two enums are kept apart as the source keeps them apart.
\<close>

datatype StatusCode =
  kOk | kCancelled | kUnknown | kInvalidArgument | kDeadlineExceeded | kNotFound
  | kAlreadyExists | kPermissionDenied | kResourceExhausted | kFailedPrecondition
  | kAborted | kOutOfRange | kUnimplemented | kInternal | kUnavailable | kDataLoss
  | kUnauthenticated

datatype grpc_StatusCode =
  OK | CANCELLED | UNKNOWN | INVALID_ARGUMENT | DEADLINE_EXCEEDED | NOT_FOUND
  | ALREADY_EXISTS | PERMISSION_DENIED | RESOURCE_EXHAUSTED | FAILED_PRECONDITION
  | ABORTED | OUT_OF_RANGE | UNIMPLEMENTED | INTERNAL | UNAVAILABLE | DATA_LOSS
  | UNAUTHENTICATED

datatype Status = Status (code: StatusCode) (message: string)

datatype grpc_Status = grpc_Status (error_code: grpc_StatusCode) (error_message: string)

definition ok :: "Status \<Rightarrow> bool" where
  "ok st = (code st = kOk)"

definition grpc_ok :: "grpc_Status \<Rightarrow> bool" where
  "grpc_ok st = (error_code st = OK)"

definition OkStatus :: Status where
  "OkStatus = Status kOk []"

definition grpc_Status_OK :: grpc_Status where
  "grpc_Status_OK = grpc_Status OK []"

definition FailedPreconditionError :: "string \<Rightarrow> Status" where
  "FailedPreconditionError m = Status kFailedPrecondition m"

definition InternalError :: "string \<Rightarrow> Status" where
  "InternalError m = Status kInternal m"

fun grpc_code_of :: "StatusCode \<Rightarrow> grpc_StatusCode" where
  "grpc_code_of kOk = OK"
| "grpc_code_of kCancelled = CANCELLED"
| "grpc_code_of kUnknown = UNKNOWN"
| "grpc_code_of kInvalidArgument = INVALID_ARGUMENT"
| "grpc_code_of kDeadlineExceeded = DEADLINE_EXCEEDED"
| "grpc_code_of kNotFound = NOT_FOUND"
| "grpc_code_of kAlreadyExists = ALREADY_EXISTS"
| "grpc_code_of kPermissionDenied = PERMISSION_DENIED"
| "grpc_code_of kResourceExhausted = RESOURCE_EXHAUSTED"
| "grpc_code_of kFailedPrecondition = FAILED_PRECONDITION"
| "grpc_code_of kAborted = ABORTED"
| "grpc_code_of kOutOfRange = OUT_OF_RANGE"
| "grpc_code_of kUnimplemented = UNIMPLEMENTED"
| "grpc_code_of kInternal = INTERNAL"
| "grpc_code_of kUnavailable = UNAVAILABLE"
| "grpc_code_of kDataLoss = DATA_LOSS"
| "grpc_code_of kUnauthenticated = UNAUTHENTICATED"

text \<open>
  Modelled from the spec: \<open>absl_to_grpc\<close> is declared in status_conversion.h, which is
  not among the sources. The spec calls its result the translated wire-level status of
  the same error class: the code is carried over, the message is kept.
\<close>

definition absl_to_grpc :: "Status \<Rightarrow> grpc_Status" where
  "absl_to_grpc st = grpc_Status (grpc_code_of (code st)) (message st)"

section \<open>Strings\<close>

text \<open>
  \<open>absl::StrCat\<close> of an integer is its decimal form. The executor index and the
  value ids are rendered by \<open>StrCat_nat\<close>, a participant count by \<open>StrCat_int\<close>.
\<close>

definition digit_char :: "nat \<Rightarrow> char" where
  "digit_char d = ''0123456789'' ! (d mod 10)"

function StrCat_nat :: "nat \<Rightarrow> string" where
  "StrCat_nat n =
     (if n < 10 then [digit_char n] else StrCat_nat (n div 10) @ [digit_char (n mod 10)])"
  by pat_completeness auto
termination
  by (relation "measure (\<lambda>n. n)") auto

declare StrCat_nat.simps [simp del]

definition StrCat_int :: "int \<Rightarrow> string" where
  "StrCat_int i = (if i < 0 then CHR ''-'' # StrCat_nat (nat (- i)) else StrCat_nat (nat i))"

text \<open>
  Modelled from the spec: \<open>CardinalityMap\<close> is declared in cardinalities.h, which is not
  among the sources. It is an ordered map from placement name to participant count; the
  model keeps its entries in iteration order, sorted by name with no name twice.
  \<open>cm_insert\<close> is the map's \<open>insert\<close>: an entry whose name is present is not replaced.
\<close>

type_synonym CardinalityMap = "(string \<times> int) list"

fun cm_insert :: "string \<Rightarrow> int \<Rightarrow> CardinalityMap \<Rightarrow> CardinalityMap" where
  "cm_insert k v [] = [(k, v)]"
| "cm_insert k v ((k', v') # m) =
     (if k = k' then (k', v') # m
      else if k < k' then (k, v) # (k', v') # m
      else (k', v') # cm_insert k v m)"

text \<open>\<open>absl::StrJoin(cardinalities, ",", absl::PairFormatter("="))\<close>\<close>

fun CardinalitiesToString :: "CardinalityMap \<Rightarrow> string" where
  "CardinalitiesToString [] = []"
| "CardinalitiesToString [(k, v)] = k @ ''='' @ StrCat_int v"
| "CardinalitiesToString ((k, v) # m) = k @ ''='' @ StrCat_int v @ '','' @ CardinalitiesToString m"

section \<open>The registry and the collaborators\<close>

text \<open>
  Modelled from the spec: \<open>ValueId\<close>, \<open>OwnedValueId\<close> and the \<open>Executor\<close> interface are
  declared in executor.h, and the fields of \<open>ExecutorService\<close> in executor_service.h;
  neither is among the sources. A \<open>ValueId\<close> is a non-negative integer, the refcount an
  integer, the executor index a counter that only grows.
\<close>

type_synonym ValueId = nat

record 'ex ExecutorEntry =
  executor :: 'ex
  remote_refcount :: int
  executor_id :: string

record ExecutorId =
  ex_identifier :: string

record ExecutorRequirements =
  cardinalities :: CardinalityMap

text \<open>
  Every call the service makes on a collaborator is appended to a log: the executor
  factory, the six capabilities of an executor, and \<open>forget\<close> on an owned value id.
\<close>

datatype ('ex, 'v) event =
  FactoryEv CardinalityMap
  | CreateValueEv 'ex 'v
  | CreateCallEv 'ex ValueId "ValueId option"
  | CreateStructEv 'ex "ValueId list"
  | CreateSelectionEv 'ex ValueId nat
  | MaterializeEv 'ex ValueId
  | DisposeEv 'ex ValueId
  | ForgetEv 'ex ValueId

text \<open>
  The collaborators are external: the factory, the executors and \<open>absl::SimpleAtoi\<close>.
  Each answers as it likes, and an answer may depend on every call made so far.
\<close>

record ('ex, 'v) backend =
  ex_factory :: "('ex, 'v) event list \<Rightarrow> CardinalityMap \<Rightarrow> Status + 'ex"
  exCreateValue :: "('ex, 'v) event list \<Rightarrow> 'ex \<Rightarrow> 'v \<Rightarrow> Status + ValueId"
  exCreateCall :: "('ex, 'v) event list \<Rightarrow> 'ex \<Rightarrow> ValueId \<Rightarrow> ValueId option \<Rightarrow> Status + ValueId"
  exCreateStruct :: "('ex, 'v) event list \<Rightarrow> 'ex \<Rightarrow> ValueId list \<Rightarrow> Status + ValueId"
  exCreateSelection :: "('ex, 'v) event list \<Rightarrow> 'ex \<Rightarrow> ValueId \<Rightarrow> nat \<Rightarrow> Status + ValueId"
  exMaterialize :: "('ex, 'v) event list \<Rightarrow> 'ex \<Rightarrow> ValueId \<Rightarrow> Status \<times> 'v option"
  exDispose :: "('ex, 'v) event list \<Rightarrow> 'ex \<Rightarrow> ValueId \<Rightarrow> Status"
  SimpleAtoi :: "string \<Rightarrow> ValueId option"

record ('ex, 'v) service =
  executors :: "string \<rightharpoonup> 'ex ExecutorEntry"
  keys_to_cardinalities :: "string \<rightharpoonup> string"
  executor_index :: nat
  service_id :: string
  calls :: "('ex, 'v) event list"

text \<open>\<open>insert\<close> on a hash map: a key that is present keeps its entry.\<close>

definition map_insert :: "('k \<rightharpoonup> 'a) \<Rightarrow> 'k \<Rightarrow> 'a \<Rightarrow> ('k \<rightharpoonup> 'a)" where
  "map_insert m k a = (case m k of None \<Rightarrow> m(k \<mapsto> a) | Some _ \<Rightarrow> m)"

definition make_executor_key :: "string \<Rightarrow> string \<Rightarrow> nat \<Rightarrow> string" where
  "make_executor_key cardinalities_string sid idx =
     cardinalities_string @ ''/'' @ sid @ ''/'' @ StrCat_nat idx"

section \<open>ExecutorResolver\<close>

definition ExecutorForRequirements ::
  "('ex, 'v) backend \<Rightarrow> ExecutorRequirements \<Rightarrow> ('ex, 'v) service
    \<Rightarrow> (Status + 'ex ExecutorEntry) \<times> ('ex, 'v) service" where
  "ExecutorForRequirements B requirements s =
     (let cardinalities_string = CardinalitiesToString (cardinalities requirements) in
      case executors s cardinalities_string of
        None \<Rightarrow>
          (let s1 = s\<lparr>calls := calls s @ [FactoryEv (cardinalities requirements)]\<rparr> in
           case ex_factory B (calls s) (cardinalities requirements) of
             Inl st \<Rightarrow> (Inl st, s1)
           | Inr new_executor \<Rightarrow>
               (let executor_key =
                      make_executor_key cardinalities_string (service_id s1) (executor_index s1);
                    s2 = s1\<lparr>executor_index := executor_index s1 + 1\<rparr>;
                    s3 = s2\<lparr>keys_to_cardinalities :=
                              map_insert (keys_to_cardinalities s2) executor_key cardinalities_string\<rparr>;
                    entry = \<lparr>executor = new_executor, remote_refcount = 1,
                             executor_id = executor_key\<rparr>;
                    s4 = s3\<lparr>executors := map_insert (executors s3) cardinalities_string entry\<rparr>
                in (Inr entry, s4)))
      | Some e \<Rightarrow>
          (let entry = e\<lparr>remote_refcount := remote_refcount e + 1\<rparr>
           in (Inr entry, s\<lparr>executors := (executors s)(cardinalities_string \<mapsto> entry)\<rparr>)))"

definition ExecutorForId ::
  "ExecutorId \<Rightarrow> string \<Rightarrow> ('ex, 'v) service
    \<Rightarrow> (Status + 'ex ExecutorEntry) \<times> ('ex, 'v) service" where
  "ExecutorForId ex_id method_name s =
     (case keys_to_cardinalities s (ex_identifier ex_id) of
        None \<Rightarrow>
          (Inl (FailedPreconditionError
                  (''Error evaluating '' @ [CHR 0x60] @ ''ExecutorService::'' @ method_name
                   @ [CHR 0x60] @ ''. No executor found for ID: '' @ [CHR 0x27]
                   @ ex_identifier ex_id @ [CHR 0x27] @ ''.'')), s)
      | Some cs \<Rightarrow>
          (case executors s cs of
             None \<Rightarrow>
               (Inl (InternalError
                       (''No executor found for cardinalities string: '' @ cs
                        @ '', referred to by executor id '' @ ex_identifier ex_id)), s)
           | Some e \<Rightarrow> (Inr e, s)))"

definition DestroyExecutor :: "ExecutorId \<Rightarrow> ('ex, 'v) service \<Rightarrow> ('ex, 'v) service" where
  "DestroyExecutor ex_id s =
     (case keys_to_cardinalities s (ex_identifier ex_id) of
        Some cs \<Rightarrow>
          (let s1 = s\<lparr>executors := (executors s)(cs := None)\<rparr>
           in s1\<lparr>keys_to_cardinalities := (keys_to_cardinalities s1)(ex_identifier ex_id := None)\<rparr>)
      | None \<Rightarrow> s)"

definition DisposeExecutor ::
  "ExecutorId \<Rightarrow> ('ex, 'v) service \<Rightarrow> Status \<times> ('ex, 'v) service" where
  "DisposeExecutor ex_id s =
     (case keys_to_cardinalities s (ex_identifier ex_id) of
        None \<Rightarrow> (OkStatus, s)
      | Some cs \<Rightarrow>
          (case executors s cs of
             None \<Rightarrow>
               (InternalError
                  (''No executor found for cardinalities string: '' @ cs
                   @ '', referred to by executor id '' @ ex_identifier ex_id), s)
           | Some e \<Rightarrow>
               (let e' = e\<lparr>remote_refcount := remote_refcount e - 1\<rparr>;
                    s1 = s\<lparr>executors := (executors s)(cs \<mapsto> e')\<rparr>;
                    should_destroy = (remote_refcount e' = 0)
                in (OkStatus, if should_destroy then DestroyExecutor ex_id s1 else s1))))"

section \<open>Value references and owned value ids\<close>

record ValueRef =
  ref_id :: string

definition IdToRemoteValue :: "ValueId \<Rightarrow> ValueRef" where
  "IdToRemoteValue value_id = \<lparr>ref_id = StrCat_nat value_id\<rparr>"

definition RemoteValueToId :: "('ex, 'v) backend \<Rightarrow> ValueRef \<Rightarrow> grpc_Status + ValueId" where
  "RemoteValueToId B remote_value_ref =
     (case SimpleAtoi B (ref_id remote_value_ref) of
        Some value_id \<Rightarrow> Inr value_id
      | None \<Rightarrow>
          Inl (grpc_Status INVALID_ARGUMENT
                 (''Expected value ref to be an integer id, found '' @ ref_id remote_value_ref)))"

text \<open>
  Modelled from the spec: \<open>OwnedValueId\<close> (executor.h, not among the sources) is a value
  id with its owning executor. \<open>forget\<close> releases it; when its scope ends, the guard
  disposes the id against the owning executor unless it was released.
\<close>

record 'ex OwnedValueId =
  owner :: 'ex
  owned_id :: ValueId
  forgotten :: bool

definition forget ::
  "'ex OwnedValueId \<Rightarrow> ('ex, 'v) service \<Rightarrow> 'ex OwnedValueId \<times> ('ex, 'v) service" where
  "forget g s = (g\<lparr>forgotten := True\<rparr>, s\<lparr>calls := calls s @ [ForgetEv (owner g) (owned_id g)]\<rparr>)"

definition OwnedValueId_dtor :: "'ex OwnedValueId \<Rightarrow> ('ex, 'v) service \<Rightarrow> ('ex, 'v) service" where
  "OwnedValueId_dtor g s =
     (if forgotten g then s else s\<lparr>calls := calls s @ [DisposeEv (owner g) (owned_id g)]\<rparr>)"

section \<open>The capabilities of an executor\<close>

definition own :: "'ex \<Rightarrow> Status + ValueId \<Rightarrow> Status + 'ex OwnedValueId" where
  "own ex r =
     (case r of Inl st \<Rightarrow> Inl st
      | Inr i \<Rightarrow> Inr \<lparr>owner = ex, owned_id = i, forgotten = False\<rparr>)"

definition Executor_CreateValue ::
  "('ex, 'v) backend \<Rightarrow> 'ex \<Rightarrow> 'v \<Rightarrow> ('ex, 'v) service
    \<Rightarrow> (Status + 'ex OwnedValueId) \<times> ('ex, 'v) service" where
  "Executor_CreateValue B ex v s =
     (own ex (exCreateValue B (calls s) ex v), s\<lparr>calls := calls s @ [CreateValueEv ex v]\<rparr>)"

definition Executor_CreateCall ::
  "('ex, 'v) backend \<Rightarrow> 'ex \<Rightarrow> ValueId \<Rightarrow> ValueId option \<Rightarrow> ('ex, 'v) service
    \<Rightarrow> (Status + 'ex OwnedValueId) \<times> ('ex, 'v) service" where
  "Executor_CreateCall B ex f a s =
     (own ex (exCreateCall B (calls s) ex f a), s\<lparr>calls := calls s @ [CreateCallEv ex f a]\<rparr>)"

definition Executor_CreateStruct ::
  "('ex, 'v) backend \<Rightarrow> 'ex \<Rightarrow> ValueId list \<Rightarrow> ('ex, 'v) service
    \<Rightarrow> (Status + 'ex OwnedValueId) \<times> ('ex, 'v) service" where
  "Executor_CreateStruct B ex ids s =
     (own ex (exCreateStruct B (calls s) ex ids), s\<lparr>calls := calls s @ [CreateStructEv ex ids]\<rparr>)"

definition Executor_CreateSelection ::
  "('ex, 'v) backend \<Rightarrow> 'ex \<Rightarrow> ValueId \<Rightarrow> nat \<Rightarrow> ('ex, 'v) service
    \<Rightarrow> (Status + 'ex OwnedValueId) \<times> ('ex, 'v) service" where
  "Executor_CreateSelection B ex src i s =
     (own ex (exCreateSelection B (calls s) ex src i),
      s\<lparr>calls := calls s @ [CreateSelectionEv ex src i]\<rparr>)"

definition Executor_Materialize ::
  "('ex, 'v) backend \<Rightarrow> 'ex \<Rightarrow> ValueId \<Rightarrow> ('ex, 'v) service
    \<Rightarrow> (Status \<times> 'v option) \<times> ('ex, 'v) service" where
  "Executor_Materialize B ex i s =
     (exMaterialize B (calls s) ex i, s\<lparr>calls := calls s @ [MaterializeEv ex i]\<rparr>)"

definition Executor_Dispose ::
  "('ex, 'v) backend \<Rightarrow> 'ex \<Rightarrow> ValueId \<Rightarrow> ('ex, 'v) service \<Rightarrow> Status \<times> ('ex, 'v) service" where
  "Executor_Dispose B ex i s =
     (exDispose B (calls s) ex i, s\<lparr>calls := calls s @ [DisposeEv ex i]\<rparr>)"

section \<open>ExecutorService\<close>

record Cardinality =
  placement_uri :: string
  cardinality :: int

record GetExecutorRequest =
  ge_cardinalities :: "Cardinality list"

record 'v CreateValueRequest =
  cv_executor :: string
  cv_payload :: 'v

record CreateCallRequest =
  cc_executor :: string
  cc_function_ref :: ValueRef
  cc_argument_ref :: "ValueRef option"

record Element =
  el_name :: string
  el_value_ref :: ValueRef

record CreateStructRequest =
  cs_executor :: string
  cs_element :: "Element list"

record CreateSelectionRequest =
  sel_executor :: string
  sel_source_ref :: ValueRef
  sel_index :: nat

record ComputeRequest =
  cp_executor :: string
  cp_value_ref :: ValueRef

record DisposeRequest =
  d_executor :: string
  d_value_ref :: "ValueRef list"

record DisposeExecutorRequest =
  de_executor :: string

text \<open>
  A handler returns the wire status and what it wrote into the response message
  (\<open>None\<close> where it wrote nothing), with the new state of the service.
\<close>

text \<open>The loop of \<open>GetExecutor\<close> that fills the cardinality map from the request.\<close>

definition request_cardinalities :: "GetExecutorRequest \<Rightarrow> CardinalityMap" where
  "request_cardinalities request =
     foldl (\<lambda>m c. cm_insert (placement_uri c) (cardinality c) m) [] (ge_cardinalities request)"

definition GetExecutor ::
  "('ex, 'v) backend \<Rightarrow> GetExecutorRequest \<Rightarrow> ('ex, 'v) service
    \<Rightarrow> (grpc_Status \<times> string option) \<times> ('ex, 'v) service" where
  "GetExecutor B request s =
     (case ExecutorForRequirements B \<lparr>cardinalities = request_cardinalities request\<rparr> s of
        (Inl st, s1) \<Rightarrow> ((absl_to_grpc st, None), s1)
      | (Inr entry, s1) \<Rightarrow> ((grpc_Status_OK, Some (executor_id entry)), s1))"

definition RequireExecutor ::
  "string \<Rightarrow> string \<Rightarrow> ('ex, 'v) service \<Rightarrow> (grpc_Status + 'ex) \<times> ('ex, 'v) service" where
  "RequireExecutor method_name executor_pb s =
     (case ExecutorForId \<lparr>ex_identifier = executor_pb\<rparr> method_name s of
        (Inl st, s1) \<Rightarrow> (Inl (absl_to_grpc st), s1)
      | (Inr e, s1) \<Rightarrow> (Inr (executor e), s1))"

definition HandleNotOK ::
  "Status \<Rightarrow> string \<Rightarrow> ('ex, 'v) service \<Rightarrow> grpc_Status \<times> ('ex, 'v) service" where
  "HandleNotOK st executor_pb s =
     (let s1 = (if code st = kFailedPrecondition
                then DestroyExecutor \<lparr>ex_identifier = executor_pb\<rparr> s else s)
      in (absl_to_grpc st, s1))"

text \<open>
  The four value-producing handlers end alike, on the result \<open>r\<close> of the capability:
  \<^verbatim>\<open>if (!r.ok()) return HandleNotOK(r.status(), request->executor());\<close>
  \<^verbatim>\<open>*response->mutable_value_ref() = IdToRemoteValue(r.value());\<close>
  \<^verbatim>\<open>r.value().forget(); return grpc::Status::OK;\<close>
  \<open>finish\<close> is these lines and \<open>respond_with\<close> the last two: the id is encoded into
  the response, the guard is told to forget it, and the guard's scope ends at the return.
\<close>

definition respond_with ::
  "'ex OwnedValueId \<Rightarrow> ('ex, 'v) service
    \<Rightarrow> (grpc_Status \<times> ValueRef option) \<times> ('ex, 'v) service" where
  "respond_with g s =
     (let value_ref = IdToRemoteValue (owned_id g) in
      case forget g s of
        (g1, s1) \<Rightarrow> ((grpc_Status_OK, Some value_ref), OwnedValueId_dtor g1 s1))"

definition finish ::
  "string \<Rightarrow> (Status + 'ex OwnedValueId) \<times> ('ex, 'v) service
    \<Rightarrow> (grpc_Status \<times> ValueRef option) \<times> ('ex, 'v) service" where
  "finish executor_pb r =
     (case r of
        (Inl st, s2) \<Rightarrow> (case HandleNotOK st executor_pb s2 of (g, s3) \<Rightarrow> ((g, None), s3))
      | (Inr owned, s2) \<Rightarrow> respond_with owned s2)"

definition CreateValue ::
  "('ex, 'v) backend \<Rightarrow> 'v CreateValueRequest \<Rightarrow> ('ex, 'v) service
    \<Rightarrow> (grpc_Status \<times> ValueRef option) \<times> ('ex, 'v) service" where
  "CreateValue B request s =
     (case RequireExecutor ''CreateValue'' (cv_executor request) s of
        (Inl g, s1) \<Rightarrow> ((g, None), s1)
      | (Inr ex, s1) \<Rightarrow>
          finish (cv_executor request) (Executor_CreateValue B ex (cv_payload request) s1))"

definition CreateCall ::
  "('ex, 'v) backend \<Rightarrow> CreateCallRequest \<Rightarrow> ('ex, 'v) service
    \<Rightarrow> (grpc_Status \<times> ValueRef option) \<times> ('ex, 'v) service" where
  "CreateCall B request s =
     (case RequireExecutor ''CreateCall'' (cc_executor request) s of
        (Inl g, s1) \<Rightarrow> ((g, None), s1)
      | (Inr ex, s1) \<Rightarrow>
          (case RemoteValueToId B (cc_function_ref request) of
             Inl g \<Rightarrow> ((g, None), s1)
           | Inr embedded_fn \<Rightarrow>
               (case cc_argument_ref request of
                  None \<Rightarrow>
                    finish (cc_executor request) (Executor_CreateCall B ex embedded_fn None s1)
                | Some argument_ref \<Rightarrow>
                    (case RemoteValueToId B argument_ref of
                       Inl g \<Rightarrow> ((g, None), s1)
                     | Inr embedded_arg \<Rightarrow>
                         finish (cc_executor request)
                           (Executor_CreateCall B ex embedded_fn (Some embedded_arg) s1)))))"

fun requested_ids ::
  "('ex, 'v) backend \<Rightarrow> Element list \<Rightarrow> ValueId list \<Rightarrow> grpc_Status + ValueId list" where
  "requested_ids B [] acc = Inr acc"
| "requested_ids B (elem # elems) acc =
     (case RemoteValueToId B (el_value_ref elem) of
        Inl g \<Rightarrow> Inl g
      | Inr i \<Rightarrow> requested_ids B elems (acc @ [i]))"

definition CreateStruct ::
  "('ex, 'v) backend \<Rightarrow> CreateStructRequest \<Rightarrow> ('ex, 'v) service
    \<Rightarrow> (grpc_Status \<times> ValueRef option) \<times> ('ex, 'v) service" where
  "CreateStruct B request s =
     (case RequireExecutor ''CreateStruct'' (cs_executor request) s of
        (Inl g, s1) \<Rightarrow> ((g, None), s1)
      | (Inr ex, s1) \<Rightarrow>
          (case requested_ids B (cs_element request) [] of
             Inl g \<Rightarrow> ((g, None), s1)
           | Inr ids \<Rightarrow> finish (cs_executor request) (Executor_CreateStruct B ex ids s1)))"

definition CreateSelection ::
  "('ex, 'v) backend \<Rightarrow> CreateSelectionRequest \<Rightarrow> ('ex, 'v) service
    \<Rightarrow> (grpc_Status \<times> ValueRef option) \<times> ('ex, 'v) service" where
  "CreateSelection B request s =
     (case RequireExecutor ''CreateSelection'' (sel_executor request) s of
        (Inl g, s1) \<Rightarrow> ((g, None), s1)
      | (Inr ex, s1) \<Rightarrow>
          (case RemoteValueToId B (sel_source_ref request) of
             Inl g \<Rightarrow> ((g, None), s1)
           | Inr selection_source \<Rightarrow>
               finish (sel_executor request)
                 (Executor_CreateSelection B ex selection_source (sel_index request) s1)))"

definition Compute ::
  "('ex, 'v) backend \<Rightarrow> ComputeRequest \<Rightarrow> ('ex, 'v) service
    \<Rightarrow> (grpc_Status \<times> 'v option) \<times> ('ex, 'v) service" where
  "Compute B request s =
     (case RequireExecutor ''Compute'' (cp_executor request) s of
        (Inl g, s1) \<Rightarrow> ((g, None), s1)
      | (Inr ex, s1) \<Rightarrow>
          (case RemoteValueToId B (cp_value_ref request) of
             Inl g \<Rightarrow> ((g, None), s1)
           | Inr requested_value \<Rightarrow>
               (case Executor_Materialize B ex requested_value s1 of
                  ((status, written), s2) \<Rightarrow>
                    if ok status then ((absl_to_grpc status, written), s2)
                    else (case HandleNotOK status (cp_executor request) s2 of
                            (g, s3) \<Rightarrow> ((g, written), s3)))))"

fun Dispose_loop ::
  "('ex, 'v) backend \<Rightarrow> 'ex \<Rightarrow> ValueRef list \<Rightarrow> ('ex, 'v) service
    \<Rightarrow> grpc_Status \<times> ('ex, 'v) service" where
  "Dispose_loop B ex [] s = (grpc_Status_OK, s)"
| "Dispose_loop B ex (disposed_value_ref # rest) s =
     (case RemoteValueToId B disposed_value_ref of
        Inl _ \<Rightarrow> Dispose_loop B ex rest s
      | Inr embedded_value \<Rightarrow>
          (case Executor_Dispose B ex embedded_value s of
             (absl_status, s1) \<Rightarrow>
               if \<not> ok absl_status then (absl_to_grpc absl_status, s1)
               else Dispose_loop B ex rest s1))"

definition Dispose ::
  "('ex, 'v) backend \<Rightarrow> DisposeRequest \<Rightarrow> ('ex, 'v) service
    \<Rightarrow> grpc_Status \<times> ('ex, 'v) service" where
  "Dispose B request s =
     (case RequireExecutor ''Dispose'' (d_executor request) s of
        (Inl _, s1) \<Rightarrow> (grpc_Status_OK, s1)
      | (Inr ex, s1) \<Rightarrow> Dispose_loop B ex (d_value_ref request) s1)"

definition Service_DisposeExecutor ::
  "DisposeExecutorRequest \<Rightarrow> ('ex, 'v) service \<Rightarrow> grpc_Status \<times> ('ex, 'v) service" where
  "Service_DisposeExecutor request s =
     (case DisposeExecutor \<lparr>ex_identifier = de_executor request\<rparr> s of
        (st, s1) \<Rightarrow> (absl_to_grpc st, s1))"

section \<open>Reachable states of the registry\<close>

text \<open>
  The registry starts with both tables empty. It moves by the four operations of the
  resolver, on any arguments; a call on a collaborator changes the log only. Every
  handler of the service is a sequence of such steps (lemma \<open>handler_steps\<close>).
\<close>

definition initial :: "('ex, 'v) service \<Rightarrow> bool" where
  "initial s = (executors s = Map.empty \<and> keys_to_cardinalities s = Map.empty)"

inductive step :: "('ex, 'v) backend \<Rightarrow> ('ex, 'v) service \<Rightarrow> ('ex, 'v) service \<Rightarrow> bool"
  for B :: "('ex, 'v) backend" where
  ForRequirements: "step B s (snd (ExecutorForRequirements B requirements s))"
| ForId: "step B s (snd (ExecutorForId ex_id method_name s))"
| Disposing: "step B s (snd (DisposeExecutor ex_id s))"
| Destroying: "step B s (DestroyExecutor ex_id s)"
| Collaborators: "step B s (s\<lparr>calls := l\<rparr>)"

inductive reachable :: "('ex, 'v) backend \<Rightarrow> ('ex, 'v) service \<Rightarrow> bool"
  for B :: "('ex, 'v) backend" where
  Start: "initial s \<Longrightarrow> reachable B s"
| Next: "reachable B s \<Longrightarrow> step B s s' \<Longrightarrow> reachable B s'"

text \<open>
  The identifiers issued so far have the form \<open>c/service_id/i\<close> with \<open>i\<close> below the
  index. An identifier of that form that is not in the keys table is stale. The
  invariant of the registry: every identifier in the keys table has that form and its
  cardinality string has an entry (I1), and no two identifiers share a string.
\<close>

definition key_form :: "('ex, 'v) service \<Rightarrow> string \<Rightarrow> bool" where
  "key_form s k = (\<exists>c i. i < executor_index s \<and> k = make_executor_key c (service_id s) i)"

definition stale :: "('ex, 'v) service \<Rightarrow> string \<Rightarrow> bool" where
  "stale s k = (keys_to_cardinalities s k = None \<and> key_form s k)"

definition registry_inv :: "('ex, 'v) service \<Rightarrow> bool" where
  "registry_inv s =
     ((\<forall>k cs. keys_to_cardinalities s k = Some cs \<longrightarrow> executors s cs \<noteq> None \<and> key_form s k)
      \<and> (\<forall>k k' cs. keys_to_cardinalities s k = Some cs \<and> keys_to_cardinalities s k' = Some cs
            \<longrightarrow> k = k'))"


section \<open>Reading a decimal string back\<close>

definition digit_val :: "char \<Rightarrow> nat" where
  "digit_val c = of_char c - 48"

definition dec_val :: "string \<Rightarrow> nat" where
  "dec_val str = foldl (\<lambda>a c. 10 * a + digit_val c) 0 str"

definition after_slash :: "string \<Rightarrow> string" where
  "after_slash str = rev (takeWhile (\<lambda>c. c \<noteq> CHR ''/'') (rev str))"


section \<open>A concrete backend and concrete states\<close>

definition demo_atoi :: "string \<Rightarrow> nat option" where
  "demo_atoi str =
     (if str \<noteq> [] \<and> list_all (\<lambda>c. CHR ''0'' \<le> c \<and> c \<le> CHR ''9'') str
      then Some (foldl (\<lambda>a c. 10 * a + (of_char c - 48)) 0 str) else None)"

definition demo_backend :: "(nat, nat) backend" where
  "demo_backend =
     \<lparr>ex_factory = (\<lambda>l cm. if cm = [] then Inl (Status kInvalidArgument ''no placements'') else Inr (length l)),
      exCreateValue = (\<lambda>l ex v. if v = 0 then Inl (Status kFailedPrecondition ''lost'')
                                 else if v = 1 then Inl (Status kUnavailable ''busy'') else Inr (length l)),
      exCreateCall = (\<lambda>l ex f a. if f = 0 then Inl (Status kFailedPrecondition ''lost'')
                                 else if f = 1 then Inl (Status kUnavailable ''busy'') else Inr (length l)),
      exCreateStruct = (\<lambda>l ex ids. if ids = [] then Inl (Status kFailedPrecondition ''lost'')
                                 else if ids = [1] then Inl (Status kUnavailable ''busy'') else Inr (length l)),
      exCreateSelection = (\<lambda>l ex src i. if src = 0 then Inl (Status kFailedPrecondition ''lost'')
                                 else if src = 1 then Inl (Status kUnavailable ''busy'') else Inr (length l)),
      exMaterialize = (\<lambda>l ex i. if i = 0 then (Status kFailedPrecondition ''lost'', None)
                                 else if i = 1 then (Status kUnavailable ''busy'', None) else (OkStatus, Some i)),
      exDispose = (\<lambda>l ex i. if i = 0 then Status kFailedPrecondition ''lost''
                                 else if i = 1 then Status kUnavailable ''busy'' else OkStatus),
      SimpleAtoi = demo_atoi\<rparr>"

definition demo_empty :: "(nat, nat) service" where
  "demo_empty =
     \<lparr>executors = Map.empty, keys_to_cardinalities = Map.empty, executor_index = 0,
      service_id = ''svc'', calls = []\<rparr>"

definition demo_dangling :: "(nat, nat) service" where
  "demo_dangling =
     \<lparr>executors = Map.empty, keys_to_cardinalities = [''k'' \<mapsto> ''c''], executor_index = 1,
      service_id = ''svc'', calls = []\<rparr>"

definition demo_one :: "(nat, nat) service" where
  "demo_one = snd (ExecutorForRequirements demo_backend \<lparr>cardinalities = [(''clients'', 3)]\<rparr> demo_empty)"


section \<open>Vocabulary of the claims\<close>

text \<open>The registry is the two tables, the index and the service id; the log is not part of it.\<close>

definition same_registry :: "('ex, 'v) service \<Rightarrow> ('ex, 'v) service \<Rightarrow> bool" where
  "same_registry s s' =
     (executors s' = executors s \<and> keys_to_cardinalities s' = keys_to_cardinalities s
      \<and> executor_index s' = executor_index s \<and> service_id s' = service_id s)"

text \<open>
  An identifier is gone for good from a state when every lookup of it fails with the
  unknown-executor error, in that state and in every state that follows it.
\<close>

definition gone_for_good :: "('ex, 'v) backend \<Rightarrow> string \<Rightarrow> ('ex, 'v) service \<Rightarrow> bool" where
  "gone_for_good B k s =
     (\<forall>s' method_name. (step B)\<^sup>*\<^sup>* s s' \<longrightarrow>
        (\<exists>m. fst (ExecutorForId \<lparr>ex_identifier = k\<rparr> method_name s')
               = Inl (Status kFailedPrecondition m)))"

text \<open>The calls a handler added to the log.\<close>

definition new_calls :: "('ex, 'v) service \<Rightarrow> ('ex, 'v) service \<Rightarrow> ('ex, 'v) event list" where
  "new_calls s s' = drop (length (calls s)) (calls s')"

text \<open>
  What a collaborator answers to the call \<open>c\<close> made after the calls \<open>l\<close>: the error it
  raises, if it raises one, and the value id it produces, if it produces one.
\<close>

fun failure :: "('ex, 'v) backend \<Rightarrow> ('ex, 'v) event list \<Rightarrow> ('ex, 'v) event \<Rightarrow> Status option" where
  "failure B l (FactoryEv cm) = (case ex_factory B l cm of Inl st \<Rightarrow> Some st | Inr _ \<Rightarrow> None)"
| "failure B l (CreateValueEv ex v) =
     (case exCreateValue B l ex v of Inl st \<Rightarrow> Some st | Inr _ \<Rightarrow> None)"
| "failure B l (CreateCallEv ex f a) =
     (case exCreateCall B l ex f a of Inl st \<Rightarrow> Some st | Inr _ \<Rightarrow> None)"
| "failure B l (CreateStructEv ex ids) =
     (case exCreateStruct B l ex ids of Inl st \<Rightarrow> Some st | Inr _ \<Rightarrow> None)"
| "failure B l (CreateSelectionEv ex src i) =
     (case exCreateSelection B l ex src i of Inl st \<Rightarrow> Some st | Inr _ \<Rightarrow> None)"
| "failure B l (MaterializeEv ex i) =
     (if ok (fst (exMaterialize B l ex i)) then None else Some (fst (exMaterialize B l ex i)))"
| "failure B l (DisposeEv ex i) =
     (if ok (exDispose B l ex i) then None else Some (exDispose B l ex i))"
| "failure B l (ForgetEv ex i) = None"



text \<open>
  The canonical cardinality string of a \<open>GetExecutor\<close> request, and the identifier
  that \<open>ExecutorForRequirements\<close> gives in the state \<open>s\<close> to an executor it builds
  for the string \<open>cs\<close>.
\<close>

definition request_string :: "GetExecutorRequest \<Rightarrow> string" where
  "request_string request = CardinalitiesToString (request_cardinalities request)"

definition next_key :: "string \<Rightarrow> ('ex, 'v) service \<Rightarrow> string" where
  "next_key cs s = make_executor_key cs (service_id s) (executor_index s)"

text \<open>\<open>GetExecutor\<close> issued \<open>n\<close> times with one request, \<open>DisposeExecutor\<close> \<open>n\<close> times on one identifier.\<close>

definition GetExecutor_times ::
  "('ex, 'v) backend \<Rightarrow> GetExecutorRequest \<Rightarrow> nat \<Rightarrow> ('ex, 'v) service \<Rightarrow> ('ex, 'v) service" where
  "GetExecutor_times B request n s = ((\<lambda>s. snd (GetExecutor B request s)) ^^ n) s"

definition DisposeExecutor_times ::
  "string \<Rightarrow> nat \<Rightarrow> ('ex, 'v) service \<Rightarrow> ('ex, 'v) service" where
  "DisposeExecutor_times k n s =
     ((\<lambda>s. snd (Service_DisposeExecutor \<lparr>de_executor = k\<rparr> s)) ^^ n) s"

text \<open>
  The value references of a \<open>Dispose\<close> request that decode, in the order of the request,
  and the answer of the executor to the \<open>j\<close>-th of them once the ones before it were sent.
\<close>

definition decodable :: "('ex, 'v) backend \<Rightarrow> ValueRef list \<Rightarrow> ValueId list" where
  "decodable B refs = List.map_filter (\<lambda>r. SimpleAtoi B (ref_id r)) refs"

definition dispose_reply ::
  "('ex, 'v) backend \<Rightarrow> ('ex, 'v) service \<Rightarrow> 'ex \<Rightarrow> ValueId list \<Rightarrow> nat \<Rightarrow> Status" where
  "dispose_reply B s ex ids j =
     exDispose B (calls s @ map (DisposeEv ex) (take j ids)) ex (ids ! j)"

text \<open>Disposing a list of ids in order, stopping at the first failure.\<close>

fun dispose_ids ::
  "('ex, 'v) backend \<Rightarrow> 'ex \<Rightarrow> ValueId list \<Rightarrow> ('ex, 'v) service
    \<Rightarrow> grpc_Status \<times> ('ex, 'v) service" where
  "dispose_ids B ex [] s = (grpc_Status_OK, s)"
| "dispose_ids B ex (i # ids) s =
     (case Executor_Dispose B ex i s of
        (st, s1) \<Rightarrow> if \<not> ok st then (absl_to_grpc st, s1) else dispose_ids B ex ids s1)"

definition demo_request :: GetExecutorRequest where
  "demo_request = \<lparr>ge_cardinalities = [\<lparr>placement_uri = ''clients'', cardinality = 3\<rparr>]\<rparr>"


definition demo_dispose :: DisposeRequest where
  "demo_dispose =
     \<lparr>d_executor = ''clients=3/svc/0'',
      d_value_ref = [\<lparr>ref_id = ''7''\<rparr>, \<lparr>ref_id = ''x''\<rparr>, \<lparr>ref_id = ''1''\<rparr>, \<lparr>ref_id = ''8''\<rparr>]\<rparr>"

definition demo_dispose_ok :: DisposeRequest where
  "demo_dispose_ok =
     \<lparr>d_executor = ''clients=3/svc/0'',
      d_value_ref = [\<lparr>ref_id = ''7''\<rparr>, \<lparr>ref_id = ''x''\<rparr>, \<lparr>ref_id = ''8''\<rparr>]\<rparr>"

text \<open>
  What the fault-eviction rule asks of the result \<open>r\<close> of a handler whose capability
  call on the executor named \<open>k\<close> failed with \<open>st\<close>: the translated error is returned;
  for a failed-precondition error the state is the one \<open>DestroyExecutor\<close> leaves and
  the identifier is gone for good; for any other error the registry is as it was.
\<close>

definition faulted ::
  "('ex, 'v) backend \<Rightarrow> Status \<Rightarrow> string \<Rightarrow> ('ex, 'v) service
    \<Rightarrow> (grpc_Status \<times> 'a option) \<times> ('ex, 'v) service \<Rightarrow> bool" where
  "faulted B st k s r =
     (fst (fst r) = absl_to_grpc st \<and>
      (if code st = kFailedPrecondition
       then (\<exists>l. snd r = DestroyExecutor \<lparr>ex_identifier = k\<rparr> (s\<lparr>calls := l\<rparr>))
            \<and> gone_for_good B k (snd r)
       else same_registry s (snd r)))"

text \<open>The argument of a \<open>CreateCall\<close> request decodes to \<open>a\<close>: absent, or a reference that decodes.\<close>

definition argument_decodes :: "('ex, 'v) backend \<Rightarrow> CreateCallRequest \<Rightarrow> ValueId option \<Rightarrow> bool" where
  "argument_decodes B request a =
     (case cc_argument_ref request of
        None \<Rightarrow> a = None
      | Some argument_ref \<Rightarrow> (\<exists>v. RemoteValueToId B argument_ref = Inr v \<and> a = Some v))"

definition demo_cv_lost :: "nat CreateValueRequest" where
  "demo_cv_lost = \<lparr>cv_executor = ''clients=3/svc/0'', cv_payload = 0\<rparr>"

definition demo_cv_busy :: "nat CreateValueRequest" where
  "demo_cv_busy = \<lparr>cv_executor = ''clients=3/svc/0'', cv_payload = 1\<rparr>"

definition demo_cc_lost :: CreateCallRequest where
  "demo_cc_lost =
     \<lparr>cc_executor = ''clients=3/svc/0'', cc_function_ref = \<lparr>ref_id = ''0''\<rparr>,
      cc_argument_ref = None\<rparr>"

definition demo_cs_lost :: CreateStructRequest where
  "demo_cs_lost = \<lparr>cs_executor = ''clients=3/svc/0'', cs_element = []\<rparr>"

definition demo_sel_lost :: CreateSelectionRequest where
  "demo_sel_lost =
     \<lparr>sel_executor = ''clients=3/svc/0'', sel_source_ref = \<lparr>ref_id = ''0''\<rparr>, sel_index = 0\<rparr>"

definition demo_cp_lost :: ComputeRequest where
  "demo_cp_lost = \<lparr>cp_executor = ''clients=3/svc/0'', cp_value_ref = \<lparr>ref_id = ''0''\<rparr>\<rparr>"

definition demo_entry :: "nat ExecutorEntry" where
  "demo_entry = \<lparr>executor = 0, remote_refcount = 1, executor_id = ''clients=3/svc/0''\<rparr>"

text \<open>
  What \<open>HandleNotOK\<close> makes of the error \<open>st\<close> that came back in the state \<open>s1\<close> from
  the executor named \<open>k\<close>: the result \<open>r\<close> of the handler carries \<open>st\<close> translated, and
  its state is \<open>s1\<close> after \<open>DestroyExecutor\<close> for a failed-precondition error, \<open>s1\<close> itself
  for any other.
\<close>

definition propagated ::
  "Status \<Rightarrow> string \<Rightarrow> ('ex, 'v) service
    \<Rightarrow> (grpc_Status \<times> 'a option) \<times> ('ex, 'v) service \<Rightarrow> bool" where
  "propagated st k s1 r =
     (fst (fst r) = absl_to_grpc st \<and>
      snd r = (if code st = kFailedPrecondition
               then DestroyExecutor \<lparr>ex_identifier = k\<rparr> s1 else s1))"

definition demo_dispose_lost :: DisposeRequest where
  "demo_dispose_lost =
     \<lparr>d_executor = ''clients=3/svc/0'', d_value_ref = [\<lparr>ref_id = ''0''\<rparr>]\<rparr>"

text \<open>
  A handler ends in a failed-precondition backend error when the one call it added to
  the log was answered by the executor with an error of that class.
\<close>

definition evicting_failure ::
  "('ex, 'v) backend \<Rightarrow> ('ex, 'v) service \<Rightarrow> ('ex, 'v) service \<Rightarrow> bool" where
  "evicting_failure B s s' =
     (\<exists>c st. new_calls s s' = [c] \<and> failure B (calls s) c = Some st
        \<and> code st = kFailedPrecondition)"







definition demo_cc_busy :: CreateCallRequest where
  "demo_cc_busy =
     \<lparr>cc_executor = ''clients=3/svc/0'', cc_function_ref = \<lparr>ref_id = ''1''\<rparr>,
      cc_argument_ref = Some \<lparr>ref_id = ''7''\<rparr>\<rparr>"

definition demo_cs_busy :: CreateStructRequest where
  "demo_cs_busy =
     \<lparr>cs_executor = ''clients=3/svc/0'',
      cs_element = [\<lparr>el_name = ''a'', el_value_ref = \<lparr>ref_id = ''1''\<rparr>\<rparr>]\<rparr>"

definition demo_sel_busy :: CreateSelectionRequest where
  "demo_sel_busy =
     \<lparr>sel_executor = ''clients=3/svc/0'', sel_source_ref = \<lparr>ref_id = ''1''\<rparr>, sel_index = 2\<rparr>"

definition demo_cp_busy :: ComputeRequest where
  "demo_cp_busy = \<lparr>cp_executor = ''clients=3/svc/0'', cp_value_ref = \<lparr>ref_id = ''1''\<rparr>\<rparr>"

definition demo_cv_ok :: "nat CreateValueRequest" where
  "demo_cv_ok = \<lparr>cv_executor = ''clients=3/svc/0'', cv_payload = 5\<rparr>"

section \<open>Lemmas\<close>

subsection \<open>Decimal strings\<close>

lemma digit_char_cases:
  "d < 10 \<Longrightarrow> d = 0 \<or> d = 1 \<or> d = 2 \<or> d = 3 \<or> d = 4 \<or> d = 5 \<or> d = 6 \<or> d = 7 \<or> d = 8 \<or> d = (9::nat)"
  by arith

lemma digit_val_digit_char: "d < 10 \<Longrightarrow> digit_val (digit_char d) = d"
  using digit_char_cases [of d] by (auto simp: digit_val_def digit_char_def)

lemma digit_char_no_slash: "d < 10 \<Longrightarrow> digit_char d \<noteq> CHR ''/''"
  using digit_char_cases [of d] by (auto simp: digit_char_def)

lemma dec_val_snoc: "dec_val (str @ [c]) = 10 * dec_val str + digit_val c"
  by (simp add: dec_val_def)

lemma dec_val_StrCat_nat: "dec_val (StrCat_nat n) = n"
proof (induction n rule: StrCat_nat.induct)
  case (1 n)
  show ?case
  proof (cases "n < 10")
    case True
    then show ?thesis
      by (simp add: StrCat_nat.simps [of n] dec_val_def digit_val_digit_char)
  next
    case False
    with 1 show ?thesis
      by (simp add: StrCat_nat.simps [of n] dec_val_snoc digit_val_digit_char)
  qed
qed

lemma StrCat_nat_inj: "StrCat_nat n = StrCat_nat m \<Longrightarrow> n = m"
  by (metis dec_val_StrCat_nat)

lemma StrCat_nat_no_slash: "CHR ''/'' \<notin> set (StrCat_nat n)"
proof (induction n rule: StrCat_nat.induct)
  case (1 n)
  show ?case
  proof (cases "n < 10")
    case True
    then show ?thesis
      using digit_char_no_slash [of n] by (simp add: StrCat_nat.simps [of n])
  next
    case False
    with 1 show ?thesis
      using digit_char_no_slash [of "n mod 10"] by (simp add: StrCat_nat.simps [of n])
  qed
qed

lemma after_slash_key: "after_slash (make_executor_key c sid i) = StrCat_nat i"
proof -
  have "rev (make_executor_key c sid i) = rev (StrCat_nat i) @ CHR ''/'' # rev (c @ ''/'' @ sid)"
    by (simp add: make_executor_key_def)
  moreover have "\<forall>x \<in> set (rev (StrCat_nat i)). x \<noteq> CHR ''/''"
    using StrCat_nat_no_slash [of i] by auto
  ultimately have "takeWhile (\<lambda>c. c \<noteq> CHR ''/'') (rev (make_executor_key c sid i)) = rev (StrCat_nat i)"
    by (simp add: takeWhile_tail)
  then show ?thesis by (simp add: after_slash_def)
qed

lemma make_executor_key_index:
  "make_executor_key c sid i = make_executor_key c' sid' j \<Longrightarrow> i = j"
proof -
  assume "make_executor_key c sid i = make_executor_key c' sid' j"
  then have "after_slash (make_executor_key c sid i) = after_slash (make_executor_key c' sid' j)"
    by simp
  then show "i = j" by (simp add: after_slash_key StrCat_nat_inj)
qed

subsection \<open>What each resolver operation does to the tables\<close>

lemma DestroyExecutor_fields:
  "executor_index (DestroyExecutor ex_id s) = executor_index s"
  "service_id (DestroyExecutor ex_id s) = service_id s"
  "calls (DestroyExecutor ex_id s) = calls s"
  "keys_to_cardinalities (DestroyExecutor ex_id s) =
     (keys_to_cardinalities s)(ex_identifier ex_id := None)"
  "executors (DestroyExecutor ex_id s) =
     (case keys_to_cardinalities s (ex_identifier ex_id) of
        None \<Rightarrow> executors s | Some cs \<Rightarrow> (executors s)(cs := None))"
  by (auto simp: DestroyExecutor_def Let_def split: option.splits)

lemma key_form_mono:
  "key_form s k \<Longrightarrow> service_id s' = service_id s \<Longrightarrow> executor_index s \<le> executor_index s'
    \<Longrightarrow> key_form s' k"
  unfolding key_form_def by (metis less_le_trans)

lemma fresh_key_not_formed:
  "key_form s k \<Longrightarrow> k \<noteq> make_executor_key c sid (executor_index s)"
  unfolding key_form_def using make_executor_key_index by blast

lemma registry_inv_fresh:
  "registry_inv s \<Longrightarrow>
     keys_to_cardinalities s (make_executor_key c sid (executor_index s)) = None"
  unfolding registry_inv_def using fresh_key_not_formed
  by (metis not_Some_eq)

lemma ExecutorForRequirements_stale:
  assumes "stale s k"
  shows "stale (snd (ExecutorForRequirements B requirements s)) k"
proof -
  have kf: "key_form s k" and kn: "keys_to_cardinalities s k = None"
    using assms by (simp_all add: stale_def)
  have neq: "k \<noteq> make_executor_key c sid (executor_index s)" for c sid
    using kf by (rule fresh_key_not_formed)
  show ?thesis
    unfolding stale_def
    by (auto simp: ExecutorForRequirements_def Let_def map_insert_def kn neq
        intro: key_form_mono [OF kf] split: option.splits sum.splits)
qed

lemma DisposeExecutor_fields:
  "executor_index (snd (DisposeExecutor ex_id s)) = executor_index s"
  "service_id (snd (DisposeExecutor ex_id s)) = service_id s"
  "calls (snd (DisposeExecutor ex_id s)) = calls s"
  by (simp_all add: DisposeExecutor_def Let_def DestroyExecutor_fields split: option.splits)

lemma DisposeExecutor_keys_None:
  "keys_to_cardinalities s k = None \<Longrightarrow> keys_to_cardinalities (snd (DisposeExecutor ex_id s)) k = None"
  by (simp add: DisposeExecutor_def Let_def DestroyExecutor_fields split: option.splits)

lemma DisposeExecutor_stale:
  assumes "stale s k"
  shows "stale (snd (DisposeExecutor ex_id s)) k"
proof -
  have kf: "key_form s k" and kn: "keys_to_cardinalities s k = None"
    using assms by (simp_all add: stale_def)
  have "key_form (snd (DisposeExecutor ex_id s)) k"
    using kf by (rule key_form_mono) (simp_all add: DisposeExecutor_fields)
  then show ?thesis
    using kn by (simp add: stale_def DisposeExecutor_keys_None)
qed

lemma step_stale: "step B s s' \<Longrightarrow> stale s k \<Longrightarrow> stale s' k"
proof (induction rule: step.induct)
  case (ForRequirements s requirements)
  then show ?case by (rule ExecutorForRequirements_stale)
next
  case (ForId s ex_id method_name)
  then show ?case by (simp add: ExecutorForId_def split: option.splits)
next
  case (Disposing s ex_id)
  then show ?case by (rule DisposeExecutor_stale)
next
  case (Destroying s ex_id)
  then show ?case
    by (auto simp: stale_def DestroyExecutor_fields intro: key_form_mono)
next
  case (Collaborators s l)
  then show ?case by (auto simp: stale_def intro: key_form_mono)
qed

lemma steps_stale: "(step B)\<^sup>*\<^sup>* s s' \<Longrightarrow> stale s k \<Longrightarrow> stale s' k"
  by (induction rule: rtranclp_induct) (auto intro: step_stale)

lemma DestroyExecutor_inv:
  assumes "registry_inv s"
  shows "registry_inv (DestroyExecutor ex_id s)"
proof (cases "keys_to_cardinalities s (ex_identifier ex_id)")
  case None
  then show ?thesis using assms by (simp add: DestroyExecutor_def)
next
  case (Some cs)
  have kf: "key_form (DestroyExecutor ex_id s) k" if "key_form s k" for k
    using that by (rule key_form_mono) (simp_all add: DestroyExecutor_fields)
  show ?thesis
    unfolding registry_inv_def
  proof (intro conjI allI impI)
    fix k cs'
    assume a: "keys_to_cardinalities (DestroyExecutor ex_id s) k = Some cs'"
    then have k: "k \<noteq> ex_identifier ex_id" "keys_to_cardinalities s k = Some cs'"
      by (auto simp: DestroyExecutor_fields split: if_splits)
    then have "cs' \<noteq> cs" using assms Some unfolding registry_inv_def by blast
    moreover have "executors s cs' \<noteq> None" using assms k unfolding registry_inv_def by blast
    ultimately show "executors (DestroyExecutor ex_id s) cs' \<noteq> None"
      by (simp add: DestroyExecutor_fields Some)
    show "key_form (DestroyExecutor ex_id s) k"
      using assms k kf unfolding registry_inv_def by blast
  next
    fix k k' cs'
    assume "keys_to_cardinalities (DestroyExecutor ex_id s) k = Some cs' \<and>
            keys_to_cardinalities (DestroyExecutor ex_id s) k' = Some cs'"
    then have "keys_to_cardinalities s k = Some cs'" "keys_to_cardinalities s k' = Some cs'"
      by (auto simp: DestroyExecutor_fields split: if_splits)
    then show "k = k'" using assms unfolding registry_inv_def by blast
  qed
qed

lemma refcount_update_inv:
  assumes "registry_inv s" "executors s cs = Some e"
  shows "registry_inv (s\<lparr>executors := (executors s)(cs \<mapsto> e')\<rparr>)"
  using assms unfolding registry_inv_def key_form_def by auto

lemma DisposeExecutor_inv:
  assumes "registry_inv s"
  shows "registry_inv (snd (DisposeExecutor ex_id s))"
  using assms
  by (auto simp: DisposeExecutor_def Let_def intro!: DestroyExecutor_inv refcount_update_inv
      split: option.splits)

lemma ExecutorForRequirements_inv:
  assumes "registry_inv s"
  shows "registry_inv (snd (ExecutorForRequirements B requirements s))"
proof -
  let ?cs = "CardinalitiesToString (cardinalities requirements)"
  show ?thesis
  proof (cases "executors s ?cs")
    case (Some e)
    then show ?thesis
      using refcount_update_inv [OF assms Some]
      by (simp add: ExecutorForRequirements_def Let_def)
  next
    case None
    show ?thesis
    proof (cases "ex_factory B (calls s) (cardinalities requirements)")
      case (Inl st)
      then show ?thesis
        using assms None
        by (simp add: ExecutorForRequirements_def Let_def registry_inv_def key_form_def)
    next
      case (Inr ex)
      let ?k = "make_executor_key ?cs (service_id s) (executor_index s)"
      let ?e = "\<lparr>executor = ex, remote_refcount = 1, executor_id = ?k\<rparr>"
      let ?s' = "s\<lparr>calls := calls s @ [FactoryEv (cardinalities requirements)],
                   executor_index := executor_index s + 1,
                   keys_to_cardinalities := (keys_to_cardinalities s)(?k \<mapsto> ?cs),
                   executors := (executors s)(?cs \<mapsto> ?e)\<rparr>"
      have fresh: "keys_to_cardinalities s ?k = None"
        using assms by (rule registry_inv_fresh)
      have eq: "snd (ExecutorForRequirements B requirements s) = ?s'"
        using None Inr fresh by (simp add: ExecutorForRequirements_def Let_def map_insert_def)
      have nocs: "keys_to_cardinalities s k \<noteq> Some ?cs" for k
        using assms None unfolding registry_inv_def by blast
      have kf_old: "key_form ?s' k" if "key_form s k" for k
        using that by (rule key_form_mono) simp_all
      have kf_new: "key_form ?s' ?k"
        unfolding key_form_def by (rule exI [of _ ?cs], rule exI [of _ "executor_index s"]) simp
      have "registry_inv ?s'"
        unfolding registry_inv_def
      proof (intro conjI allI impI)
        fix k cs'
        assume a: "keys_to_cardinalities ?s' k = Some cs'"
        show "executors ?s' cs' \<noteq> None"
          using a assms unfolding registry_inv_def by (auto split: if_splits)
        show "key_form ?s' k"
        proof (cases "k = ?k")
          case True
          then show ?thesis using kf_new by simp
        next
          case False
          then have "keys_to_cardinalities s k = Some cs'" using a by simp
          then have "key_form s k" using assms unfolding registry_inv_def by blast
          then show ?thesis by (rule kf_old)
        qed
      next
        fix k k' cs'
        assume a: "keys_to_cardinalities ?s' k = Some cs' \<and> keys_to_cardinalities ?s' k' = Some cs'"
        show "k = k'"
        proof (cases "cs' = ?cs")
          case True
          then have "k = ?k" "k' = ?k" using a nocs by (auto split: if_splits)
          then show ?thesis by simp
        next
          case False
          then have "keys_to_cardinalities s k = Some cs'" "keys_to_cardinalities s k' = Some cs'"
            using a by (auto split: if_splits)
          then show ?thesis using assms unfolding registry_inv_def by blast
        qed
      qed
      then show ?thesis by (simp only: eq)
    qed
  qed
qed

lemma step_inv: "step B s s' \<Longrightarrow> registry_inv s \<Longrightarrow> registry_inv s'"
proof (induction rule: step.induct)
  case (ForRequirements s requirements)
  then show ?case by (rule ExecutorForRequirements_inv)
next
  case (ForId s ex_id method_name)
  then show ?case by (simp add: ExecutorForId_def split: option.splits)
next
  case (Disposing s ex_id)
  then show ?case by (rule DisposeExecutor_inv)
next
  case (Destroying s ex_id)
  then show ?case by (rule DestroyExecutor_inv)
next
  case (Collaborators s l)
  then show ?case by (simp add: registry_inv_def key_form_def)
qed

lemma initial_inv: "initial s \<Longrightarrow> registry_inv s"
  by (simp add: initial_def registry_inv_def)

lemma reachable_inv: "reachable B s \<Longrightarrow> registry_inv s"
  by (induction rule: reachable.induct) (auto intro: initial_inv step_inv)

lemma steps_inv: "(step B)\<^sup>*\<^sup>* s s' \<Longrightarrow> registry_inv s \<Longrightarrow> registry_inv s'"
  by (induction rule: rtranclp_induct) (auto intro: step_inv)

lemma reachable_steps: "(step B)\<^sup>*\<^sup>* s s' \<Longrightarrow> reachable B s \<Longrightarrow> reachable B s'"
  by (induction rule: rtranclp_induct) (auto intro: reachable.Next)

subsection \<open>The concrete states\<close>

lemma StrCat_nat_small: "n < 10 \<Longrightarrow> StrCat_nat n = [digit_char n]"
  by (simp add: StrCat_nat.simps)

lemma demo_one_eq:
  "demo_one =
     \<lparr>executors = [''clients=3'' \<mapsto> \<lparr>executor = 0, remote_refcount = 1, executor_id = ''clients=3/svc/0''\<rparr>],
      keys_to_cardinalities = [''clients=3/svc/0'' \<mapsto> ''clients=3''], executor_index = 1,
      service_id = ''svc'', calls = [FactoryEv [(''clients'', 3)]]\<rparr>"
  by (simp add: demo_one_def ExecutorForRequirements_def demo_empty_def demo_backend_def
      make_executor_key_def map_insert_def StrCat_int_def StrCat_nat_small digit_char_def Let_def)

lemma demo_empty_reachable: "reachable demo_backend demo_empty"
  by (rule reachable.Start) (simp add: initial_def demo_empty_def)

lemma demo_one_reachable: "reachable demo_backend demo_one"
  unfolding demo_one_def
  by (rule reachable.Next [OF demo_empty_reachable]) (rule step.ForRequirements)


lemma demo_request_string:
  "request_cardinalities demo_request = [(''clients'', 3)]"
  "CardinalitiesToString [(''clients'', 3)] = ''clients=3''"
  "make_executor_key ''clients=3'' (service_id demo_empty) (executor_index demo_empty)
     = ''clients=3/svc/0''"
  by (simp_all add: demo_request_def request_cardinalities_def demo_empty_def
      make_executor_key_def StrCat_int_def StrCat_nat_small digit_char_def)


subsection \<open>Refcounts\<close>

lemma GetExecutor_existing:
  assumes "executors s (CardinalitiesToString (request_cardinalities request)) = Some e"
  shows "GetExecutor B request s =
     ((grpc_Status_OK, Some (executor_id e)),
      s\<lparr>executors := (executors s)(CardinalitiesToString (request_cardinalities request)
           \<mapsto> e\<lparr>remote_refcount := remote_refcount e + 1\<rparr>)\<rparr>)"
  using assms by (simp add: GetExecutor_def ExecutorForRequirements_def Let_def)

lemma GetExecutor_times_existing:
  assumes "executors s (CardinalitiesToString (request_cardinalities request)) = Some e"
  shows "GetExecutor_times B request m s =
     s\<lparr>executors := (executors s)(CardinalitiesToString (request_cardinalities request)
          \<mapsto> e\<lparr>remote_refcount := remote_refcount e + int m\<rparr>)\<rparr>"
proof (induction m)
  case 0
  show ?case using assms by (simp add: GetExecutor_times_def map_upd_triv)
next
  case (Suc m)
  let ?cs = "CardinalitiesToString (request_cardinalities request)"
  let ?sm = "s\<lparr>executors := (executors s)(?cs \<mapsto> e\<lparr>remote_refcount := remote_refcount e + int m\<rparr>)\<rparr>"
  have "GetExecutor_times B request (Suc m) s = snd (GetExecutor B request (GetExecutor_times B request m s))"
    by (simp add: GetExecutor_times_def)
  also have "\<dots> = snd (GetExecutor B request ?sm)" by (simp only: Suc)
  also have "\<dots> = s\<lparr>executors := (executors s)(?cs \<mapsto> e\<lparr>remote_refcount := remote_refcount e + int (Suc m)\<rparr>)\<rparr>"
  proof -
    have em: "executors ?sm ?cs = Some (e\<lparr>remote_refcount := remote_refcount e + int m\<rparr>)" by simp
    show ?thesis by (subst GetExecutor_existing [OF em]) (simp add: algebra_simps)
  qed
  finally show ?case .
qed

lemma Service_DisposeExecutor_live:
  assumes "keys_to_cardinalities s k = Some cs" "executors s cs = Some e"
  shows "Service_DisposeExecutor \<lparr>de_executor = k\<rparr> s =
     (grpc_Status_OK,
      if remote_refcount e = 1
      then s\<lparr>executors := (executors s)(cs := None),
             keys_to_cardinalities := (keys_to_cardinalities s)(k := None)\<rparr>
      else s\<lparr>executors := (executors s)(cs \<mapsto> e\<lparr>remote_refcount := remote_refcount e - 1\<rparr>)\<rparr>)"
  using assms
  by (simp add: Service_DisposeExecutor_def DisposeExecutor_def DestroyExecutor_def Let_def
      absl_to_grpc_def OkStatus_def grpc_Status_OK_def)

lemma DisposeExecutor_times_live:
  assumes "keys_to_cardinalities s k = Some cs" "executors s cs = Some e"
    "remote_refcount e = int n"
  shows "j < n \<Longrightarrow> DisposeExecutor_times k j s =
     s\<lparr>executors := (executors s)(cs \<mapsto> e\<lparr>remote_refcount := int n - int j\<rparr>)\<rparr>"
proof (induction j)
  case 0
  show ?case using assms by (simp add: DisposeExecutor_times_def map_upd_triv)
next
  case (Suc j)
  let ?sj = "s\<lparr>executors := (executors s)(cs \<mapsto> e\<lparr>remote_refcount := int n - int j\<rparr>)\<rparr>"
  have "DisposeExecutor_times k (Suc j) s =
          snd (Service_DisposeExecutor \<lparr>de_executor = k\<rparr> (DisposeExecutor_times k j s))"
    by (simp add: DisposeExecutor_times_def)
  also have "\<dots> = snd (Service_DisposeExecutor \<lparr>de_executor = k\<rparr> ?sj)"
    using Suc by (simp only: Suc_lessD)
  also have "\<dots> = s\<lparr>executors := (executors s)(cs \<mapsto> e\<lparr>remote_refcount := int n - int (Suc j)\<rparr>)\<rparr>"
  proof -
    have kj: "keys_to_cardinalities ?sj k = Some cs" using assms(1) by simp
    have ej: "executors ?sj cs = Some (e\<lparr>remote_refcount := int n - int j\<rparr>)" by simp
    show ?thesis
      by (subst Service_DisposeExecutor_live [OF kj ej]) (use Suc.prems in \<open>simp add: algebra_simps\<close>)
  qed
  finally show ?case .
qed

lemma DisposeExecutor_times_last:
  assumes "keys_to_cardinalities s k = Some cs" "executors s cs = Some e"
    "remote_refcount e = int n" "1 \<le> n"
  shows "DisposeExecutor_times k n s =
     s\<lparr>executors := (executors s)(cs := None),
       keys_to_cardinalities := (keys_to_cardinalities s)(k := None)\<rparr>"
proof -
  obtain j where n: "n = Suc j" using assms(4) by (cases n) auto
  let ?sj = "s\<lparr>executors := (executors s)(cs \<mapsto> e\<lparr>remote_refcount := int n - int j\<rparr>)\<rparr>"
  have "DisposeExecutor_times k n s =
          snd (Service_DisposeExecutor \<lparr>de_executor = k\<rparr> (DisposeExecutor_times k j s))"
    by (simp add: DisposeExecutor_times_def n)
  also have "\<dots> = snd (Service_DisposeExecutor \<lparr>de_executor = k\<rparr> ?sj)"
    using DisposeExecutor_times_live [OF assms(1-3), of j] n by simp
  also have "\<dots> = s\<lparr>executors := (executors s)(cs := None),
       keys_to_cardinalities := (keys_to_cardinalities s)(k := None)\<rparr>"
  proof -
    have kj: "keys_to_cardinalities ?sj k = Some cs" using assms(1) by simp
    have ej: "executors ?sj cs = Some (e\<lparr>remote_refcount := int n - int j\<rparr>)" by simp
    show ?thesis
      by (subst Service_DisposeExecutor_live [OF kj ej]) (use n in simp)
  qed
  finally show ?thesis .
qed

lemma GetExecutor_first:
  assumes "registry_inv s"
    "executors s (CardinalitiesToString (request_cardinalities request)) = None"
    "ex_factory B (calls s) (request_cardinalities request) = Inr ex"
  shows "GetExecutor B request s =
     ((grpc_Status_OK,
       Some (make_executor_key (CardinalitiesToString (request_cardinalities request))
               (service_id s) (executor_index s))),
      s\<lparr>calls := calls s @ [FactoryEv (request_cardinalities request)],
        executor_index := executor_index s + 1,
        keys_to_cardinalities := (keys_to_cardinalities s)
          (make_executor_key (CardinalitiesToString (request_cardinalities request))
             (service_id s) (executor_index s)
           \<mapsto> CardinalitiesToString (request_cardinalities request)),
        executors := (executors s)
          (CardinalitiesToString (request_cardinalities request) \<mapsto>
             \<lparr>executor = ex, remote_refcount = 1,
              executor_id = make_executor_key (CardinalitiesToString (request_cardinalities request))
                              (service_id s) (executor_index s)\<rparr>)\<rparr>)"
  using assms(2,3) registry_inv_fresh [OF assms(1)]
  by (simp add: GetExecutor_def ExecutorForRequirements_def Let_def map_insert_def)

lemma funpow_shift: "(f ^^ Suc n) x = (f ^^ n) (f x)"
  by (simp add: funpow_swap1)


subsection \<open>The loop of Dispose\<close>

lemma Dispose_loop_decodable:
  "Dispose_loop B ex refs s = dispose_ids B ex (decodable B refs) s"
proof (induction refs arbitrary: s)
  case Nil
  show ?case by (simp add: decodable_def map_filter_simps)
next
  case (Cons r refs)
  show ?case
  proof (cases "SimpleAtoi B (ref_id r)")
    case None
    then show ?thesis
      using Cons [of s] by (simp add: decodable_def map_filter_simps RemoteValueToId_def)
  next
    case (Some i)
    then show ?thesis
      using Cons by (simp add: decodable_def map_filter_simps RemoteValueToId_def split: prod.splits)
  qed
qed

lemma dispose_reply_Cons:
  "dispose_reply B (s\<lparr>calls := calls s @ [DisposeEv ex i]\<rparr>) ex ids j
     = dispose_reply B s ex (i # ids) (Suc j)"
  by (simp add: dispose_reply_def)

lemma dispose_ids_all_ok:
  "(\<forall>j<length ids. ok (dispose_reply B s ex ids j)) \<Longrightarrow>
     dispose_ids B ex ids s = (grpc_Status_OK, s\<lparr>calls := calls s @ map (DisposeEv ex) ids\<rparr>)"
proof (induction ids arbitrary: s)
  case Nil
  show ?case by simp
next
  case (Cons i ids)
  let ?s1 = "s\<lparr>calls := calls s @ [DisposeEv ex i]\<rparr>"
  have first: "ok (exDispose B (calls s) ex i)"
    using Cons.prems [rule_format, of 0] by (simp add: dispose_reply_def)
  have rest: "\<forall>j<length ids. ok (dispose_reply B ?s1 ex ids j)"
    using Cons.prems by (auto simp: dispose_reply_Cons)
  show ?case
    using first Cons.IH [OF rest] by (simp add: Executor_Dispose_def)
qed

lemma dispose_ids_first_failure:
  "j < length ids \<Longrightarrow> \<not> ok (dispose_reply B s ex ids j) \<Longrightarrow>
   (\<forall>i<j. ok (dispose_reply B s ex ids i)) \<Longrightarrow>
     dispose_ids B ex ids s =
       (absl_to_grpc (dispose_reply B s ex ids j),
        s\<lparr>calls := calls s @ map (DisposeEv ex) (take (Suc j) ids)\<rparr>)"
proof (induction ids arbitrary: s j)
  case Nil
  then show ?case by simp
next
  case (Cons i ids)
  let ?s1 = "s\<lparr>calls := calls s @ [DisposeEv ex i]\<rparr>"
  show ?case
  proof (cases j)
    case 0
    then show ?thesis
      using Cons.prems(2) by (simp add: Executor_Dispose_def dispose_reply_def)
  next
    case (Suc j')
    have first: "ok (exDispose B (calls s) ex i)"
      using Cons.prems(3) [rule_format, of 0] Suc by (simp add: dispose_reply_def)
    have a: "j' < length ids" using Cons.prems(1) Suc by simp
    have b: "\<not> ok (dispose_reply B ?s1 ex ids j')"
      using Cons.prems(2) Suc by (simp add: dispose_reply_Cons)
    have c: "\<forall>i'<j'. ok (dispose_reply B ?s1 ex ids i')"
      using Cons.prems(3) Suc by (auto simp: dispose_reply_Cons)
    show ?thesis
      using first Cons.IH [OF a b c] Suc
      by (simp add: Executor_Dispose_def dispose_reply_Cons)
  qed
qed

lemma RequireExecutor_state: "snd (RequireExecutor method_name executor_pb s) = s"
  by (simp add: RequireExecutor_def ExecutorForId_def split: option.splits)

lemma Dispose_resolved:
  assumes "fst (RequireExecutor ''Dispose'' (d_executor request) s) = Inr ex"
  shows "Dispose B request s = dispose_ids B ex (decodable B (d_value_ref request)) s"
proof -
  have "RequireExecutor ''Dispose'' (d_executor request) s = (Inr ex, s)"
    using assms RequireExecutor_state [of "''Dispose''" "d_executor request" s]
    by (metis prod.collapse)
  then show ?thesis by (simp add: Dispose_def Dispose_loop_decodable)
qed

lemma demo_atoi_values:
  "demo_atoi ''7'' = Some 7" "demo_atoi ''x'' = None" "demo_atoi ''1'' = Some 1"
  "demo_atoi ''8'' = Some 8" "demo_atoi ''0'' = Some 0" "demo_atoi ''5'' = Some 5"
  by (simp_all add: demo_atoi_def)

lemma demo_decodable:
  "decodable demo_backend (d_value_ref demo_dispose) = [7, 1, 8]"
  "decodable demo_backend (d_value_ref demo_dispose_ok) = [7, 8]"
  by (simp_all add: decodable_def map_filter_simps demo_dispose_def demo_dispose_ok_def
      demo_backend_def demo_atoi_values)

lemma demo_one_resolves:
  "fst (RequireExecutor m ''clients=3/svc/0'' demo_one) = Inr 0"
  by (simp add: RequireExecutor_def ExecutorForId_def demo_one_eq)

subsection \<open>The handlers\<close>

lemma ExecutorForId_Inr:
  "fst (ExecutorForId \<lparr>ex_identifier = k\<rparr> m s) = Inr e \<Longrightarrow>
     \<exists>cs. keys_to_cardinalities s k = Some cs \<and> executors s cs = Some e"
  by (auto simp: ExecutorForId_def split: option.splits)

lemma RequireExecutor_Inr:
  "fst (ExecutorForId \<lparr>ex_identifier = k\<rparr> m s) = Inr e \<Longrightarrow>
     RequireExecutor m' k s = (Inr (executor e), s)"
  by (auto simp: RequireExecutor_def ExecutorForId_def split: option.splits)

lemma RequireExecutor_cases:
  "(\<exists>g. RequireExecutor m k s = (Inl g, s)) \<or>
   (\<exists>e. fst (ExecutorForId \<lparr>ex_identifier = k\<rparr> m s) = Inr e \<and>
        RequireExecutor m k s = (Inr (executor e), s))"
  by (auto simp: RequireExecutor_def ExecutorForId_def split: option.splits)

lemma finish_failure:
  "finish k (own ex (Inl st), s1) =
     ((absl_to_grpc st, None),
      if code st = kFailedPrecondition then DestroyExecutor \<lparr>ex_identifier = k\<rparr> s1 else s1)"
  by (simp add: finish_def own_def HandleNotOK_def Let_def)

lemma finish_success:
  "finish k (own ex (Inr i), s1) =
     ((grpc_Status_OK, Some (IdToRemoteValue i)), s1\<lparr>calls := calls s1 @ [ForgetEv ex i]\<rparr>)"
  by (simp add: finish_def own_def respond_with_def forget_def OwnedValueId_dtor_def Let_def)

lemma same_registry_calls: "same_registry s (s\<lparr>calls := l\<rparr>)"
  by (simp add: same_registry_def)

lemma stale_gone_for_good:
  assumes "stale s k"
  shows "gone_for_good B k s"
  unfolding gone_for_good_def
proof (intro allI impI)
  fix s' method_name
  assume "(step B)\<^sup>*\<^sup>* s s'"
  then have "stale s' k" using assms by (rule steps_stale)
  then show "\<exists>m. fst (ExecutorForId \<lparr>ex_identifier = k\<rparr> method_name s')
                 = Inl (Status kFailedPrecondition m)"
    by (simp add: stale_def ExecutorForId_def FailedPreconditionError_def)
qed

lemma evicted_gone_for_good:
  assumes "reachable B s" "keys_to_cardinalities s k = Some cs"
  shows "gone_for_good B k (DestroyExecutor \<lparr>ex_identifier = k\<rparr> (s\<lparr>calls := l\<rparr>))"
proof -
  have "registry_inv s" using assms(1) by (rule reachable_inv)
  then have "key_form s k" using assms(2) unfolding registry_inv_def by blast
  then have "key_form (DestroyExecutor \<lparr>ex_identifier = k\<rparr> (s\<lparr>calls := l\<rparr>)) k"
    by (rule key_form_mono) (simp_all add: DestroyExecutor_fields)
  then have "stale (DestroyExecutor \<lparr>ex_identifier = k\<rparr> (s\<lparr>calls := l\<rparr>)) k"
    by (simp add: stale_def DestroyExecutor_fields)
  then show ?thesis by (rule stale_gone_for_good)
qed

lemma HandleNotOK_faulted:
  assumes "reachable B s" "fst (ExecutorForId \<lparr>ex_identifier = k\<rparr> m s) = Inr e"
    "fst (fst r) = absl_to_grpc st"
    "snd r = (if code st = kFailedPrecondition
              then DestroyExecutor \<lparr>ex_identifier = k\<rparr> (s\<lparr>calls := l\<rparr>) else s\<lparr>calls := l\<rparr>)"
  shows "faulted B st k s r"
proof -
  obtain cs where "keys_to_cardinalities s k = Some cs"
    using ExecutorForId_Inr [OF assms(2)] by blast
  then have "gone_for_good B k (DestroyExecutor \<lparr>ex_identifier = k\<rparr> (s\<lparr>calls := l\<rparr>))"
    using assms(1) by (rule evicted_gone_for_good [rotated])
  then show ?thesis
    using assms(3,4) by (auto simp: faulted_def same_registry_calls)
qed

lemma CreateValue_failure:
  assumes "fst (ExecutorForId \<lparr>ex_identifier = cv_executor request\<rparr> m s) = Inr e"
    "exCreateValue B (calls s) (executor e) (cv_payload request) = Inl st"
  shows "CreateValue B request s =
     ((absl_to_grpc st, None),
      if code st = kFailedPrecondition
      then DestroyExecutor \<lparr>ex_identifier = cv_executor request\<rparr>
             (s\<lparr>calls := calls s @ [CreateValueEv (executor e) (cv_payload request)]\<rparr>)
      else s\<lparr>calls := calls s @ [CreateValueEv (executor e) (cv_payload request)]\<rparr>)"
  using assms(2)
  by (simp add: finish_failure CreateValue_def RequireExecutor_Inr [OF assms(1)] Executor_CreateValue_def)

lemma CreateCall_failure:
  assumes "fst (ExecutorForId \<lparr>ex_identifier = cc_executor request\<rparr> m s) = Inr e"
    "RemoteValueToId B (cc_function_ref request) = Inr f"
    "argument_decodes B request a"
    "exCreateCall B (calls s) (executor e) f a = Inl st"
  shows "CreateCall B request s =
     ((absl_to_grpc st, None),
      if code st = kFailedPrecondition
      then DestroyExecutor \<lparr>ex_identifier = cc_executor request\<rparr>
             (s\<lparr>calls := calls s @ [CreateCallEv (executor e) f a]\<rparr>)
      else s\<lparr>calls := calls s @ [CreateCallEv (executor e) f a]\<rparr>)"
  using assms(2-4)
  by (auto simp: finish_failure CreateCall_def RequireExecutor_Inr [OF assms(1)] Executor_CreateCall_def
      argument_decodes_def split: option.splits)

lemma CreateStruct_failure:
  assumes "fst (ExecutorForId \<lparr>ex_identifier = cs_executor request\<rparr> m s) = Inr e"
    "requested_ids B (cs_element request) [] = Inr ids"
    "exCreateStruct B (calls s) (executor e) ids = Inl st"
  shows "CreateStruct B request s =
     ((absl_to_grpc st, None),
      if code st = kFailedPrecondition
      then DestroyExecutor \<lparr>ex_identifier = cs_executor request\<rparr>
             (s\<lparr>calls := calls s @ [CreateStructEv (executor e) ids]\<rparr>)
      else s\<lparr>calls := calls s @ [CreateStructEv (executor e) ids]\<rparr>)"
  using assms(2,3)
  by (simp add: finish_failure CreateStruct_def RequireExecutor_Inr [OF assms(1)] Executor_CreateStruct_def)

lemma CreateSelection_failure:
  assumes "fst (ExecutorForId \<lparr>ex_identifier = sel_executor request\<rparr> m s) = Inr e"
    "RemoteValueToId B (sel_source_ref request) = Inr src"
    "exCreateSelection B (calls s) (executor e) src (sel_index request) = Inl st"
  shows "CreateSelection B request s =
     ((absl_to_grpc st, None),
      if code st = kFailedPrecondition
      then DestroyExecutor \<lparr>ex_identifier = sel_executor request\<rparr>
             (s\<lparr>calls := calls s @ [CreateSelectionEv (executor e) src (sel_index request)]\<rparr>)
      else s\<lparr>calls := calls s @ [CreateSelectionEv (executor e) src (sel_index request)]\<rparr>)"
  using assms(2,3)
  by (simp add: finish_failure CreateSelection_def RequireExecutor_Inr [OF assms(1)] Executor_CreateSelection_def)

lemma Compute_failure:
  assumes "fst (ExecutorForId \<lparr>ex_identifier = cp_executor request\<rparr> m s) = Inr e"
    "RemoteValueToId B (cp_value_ref request) = Inr i"
    "\<not> ok (fst (exMaterialize B (calls s) (executor e) i))"
  shows "Compute B request s =
     ((absl_to_grpc (fst (exMaterialize B (calls s) (executor e) i)),
       snd (exMaterialize B (calls s) (executor e) i)),
      if code (fst (exMaterialize B (calls s) (executor e) i)) = kFailedPrecondition
      then DestroyExecutor \<lparr>ex_identifier = cp_executor request\<rparr>
             (s\<lparr>calls := calls s @ [MaterializeEv (executor e) i]\<rparr>)
      else s\<lparr>calls := calls s @ [MaterializeEv (executor e) i]\<rparr>)"
  using assms(2,3)
  by (cases "exMaterialize B (calls s) (executor e) i")
    (simp add: Compute_def RequireExecutor_Inr [OF assms(1)] Executor_Materialize_def
      HandleNotOK_def Let_def)

lemma demo_one_lookup:
  "fst (ExecutorForId \<lparr>ex_identifier = ''clients=3/svc/0''\<rparr> m demo_one) = Inr demo_entry"
  by (simp add: ExecutorForId_def demo_one_eq demo_entry_def)

lemma demo_decode_0: "RemoteValueToId demo_backend \<lparr>ref_id = ''0''\<rparr> = Inr 0"
  by (simp add: RemoteValueToId_def demo_backend_def demo_atoi_values)

lemma demo_lost:
  "exCreateValue demo_backend l ex 0 = Inl (Status kFailedPrecondition ''lost'')"
  "exCreateCall demo_backend l ex 0 a = Inl (Status kFailedPrecondition ''lost'')"
  "exCreateStruct demo_backend l ex [] = Inl (Status kFailedPrecondition ''lost'')"
  "exCreateSelection demo_backend l ex 0 i = Inl (Status kFailedPrecondition ''lost'')"
  "exMaterialize demo_backend l ex 0 = (Status kFailedPrecondition ''lost'', None)"
  "exDispose demo_backend l ex 0 = Status kFailedPrecondition ''lost''"
  by (simp_all add: demo_backend_def)

lemma gone_for_good_now:
  "gone_for_good B k s \<Longrightarrow>
     \<exists>m. fst (ExecutorForId \<lparr>ex_identifier = k\<rparr> method_name s) = Inl (Status kFailedPrecondition m)"
  unfolding gone_for_good_def by blast

lemma demo_dispose_lost_result:
  "Dispose demo_backend demo_dispose_lost demo_one =
     (grpc_Status FAILED_PRECONDITION ''lost'',
      demo_one\<lparr>calls := calls demo_one @ [DisposeEv 0 0]\<rparr>)"
  by (simp add: Dispose_def demo_dispose_lost_def demo_one_resolves RequireExecutor_state
      RequireExecutor_Inr [OF demo_one_lookup] demo_entry_def demo_decode_0
      Executor_Dispose_def demo_lost ok_def absl_to_grpc_def)

subsection \<open>Frame and ownership\<close>

lemma new_calls_append: "calls s' = calls s @ l \<Longrightarrow> new_calls s s' = l"
  by (simp add: new_calls_def)


lemma same_registry_refl: "same_registry s s"
  by (simp add: same_registry_def)


lemma finish_frame:
  assumes "failure B (calls s) c = (case res of Inl st \<Rightarrow> Some st | Inr _ \<Rightarrow> None)"
    "\<not> evicting_failure B s (snd (finish k (own ex res, s\<lparr>calls := calls s @ [c]\<rparr>)))"
  shows "same_registry s (snd (finish k (own ex res, s\<lparr>calls := calls s @ [c]\<rparr>)))"
proof (cases res)
  case (Inl st)
  have n: "new_calls s (snd (finish k (own ex res, s\<lparr>calls := calls s @ [c]\<rparr>))) = [c]"
    by (rule new_calls_append) (simp add: Inl finish_failure DestroyExecutor_fields)
  have "code st \<noteq> kFailedPrecondition"
    using assms n Inl by (auto simp: evicting_failure_def)
  then show ?thesis by (simp add: Inl finish_failure same_registry_def)
next
  case (Inr i)
  then show ?thesis by (simp add: finish_success same_registry_def)
qed


lemma RequireExecutor_Inl_not_ok:
  "fst (RequireExecutor m k s) = Inl g \<Longrightarrow> error_code g \<noteq> OK"
  by (auto simp: RequireExecutor_def ExecutorForId_def absl_to_grpc_def
      FailedPreconditionError_def InternalError_def split: option.splits)

lemma RemoteValueToId_Inl_not_ok:
  "RemoteValueToId B r = Inl g \<Longrightarrow> error_code g \<noteq> OK"
  by (auto simp: RemoteValueToId_def split: option.splits)

lemma requested_ids_Inl_not_ok:
  "requested_ids B elems acc = Inl g \<Longrightarrow> error_code g \<noteq> OK"
proof (induction elems arbitrary: acc)
  case Nil
  then show ?case by simp
next
  case (Cons elem elems)
  show ?case
  proof (cases "RemoteValueToId B (el_value_ref elem)")
    case (Inl g')
    then have "g' = g" using Cons.prems by simp
    then show ?thesis using RemoteValueToId_Inl_not_ok [OF Inl] by simp
  next
    case (Inr i)
    then show ?thesis using Cons by simp
  qed
qed

lemma RequireExecutor_pair:
  "RequireExecutor m k s = (fst (RequireExecutor m k s), s)"
  using RequireExecutor_state [of m k s] by (metis prod.collapse)

lemma CreateValue_shape:
  "(\<exists>g. CreateValue B request s = ((g, None), s) \<and> error_code g \<noteq> OK) \<or>
   (\<exists>ex. CreateValue B request s =
      finish (cv_executor request)
        (own ex (exCreateValue B (calls s) ex (cv_payload request)),
         s\<lparr>calls := calls s @ [CreateValueEv ex (cv_payload request)]\<rparr>))"
proof (cases "fst (RequireExecutor ''CreateValue'' (cv_executor request) s)")
  case (Inl g)
  then have "RequireExecutor ''CreateValue'' (cv_executor request) s = (Inl g, s)"
    using RequireExecutor_pair [of "''CreateValue''" "cv_executor request" s] by simp
  then show ?thesis using RequireExecutor_Inl_not_ok [OF Inl] by (simp add: CreateValue_def)
next
  case (Inr ex)
  then have "RequireExecutor ''CreateValue'' (cv_executor request) s = (Inr ex, s)"
    using RequireExecutor_pair [of "''CreateValue''" "cv_executor request" s] by simp
  then show ?thesis by (auto simp: CreateValue_def Executor_CreateValue_def)
qed

lemma CreateCall_shape:
  "(\<exists>g. CreateCall B request s = ((g, None), s) \<and> error_code g \<noteq> OK) \<or>
   (\<exists>ex f a. CreateCall B request s =
      finish (cc_executor request)
        (own ex (exCreateCall B (calls s) ex f a),
         s\<lparr>calls := calls s @ [CreateCallEv ex f a]\<rparr>))"
proof (cases "fst (RequireExecutor ''CreateCall'' (cc_executor request) s)")
  case (Inl g)
  then have "RequireExecutor ''CreateCall'' (cc_executor request) s = (Inl g, s)"
    using RequireExecutor_pair [of "''CreateCall''" "cc_executor request" s] by simp
  then show ?thesis using RequireExecutor_Inl_not_ok [OF Inl] by (simp add: CreateCall_def)
next
  case (Inr ex)
  then have r: "RequireExecutor ''CreateCall'' (cc_executor request) s = (Inr ex, s)"
    using RequireExecutor_pair [of "''CreateCall''" "cc_executor request" s] by simp
  show ?thesis
  proof (cases "RemoteValueToId B (cc_function_ref request)")
    case (Inl g)
    then show ?thesis using RemoteValueToId_Inl_not_ok [OF Inl] by (simp add: CreateCall_def r)
  next
    case f: (Inr f)
    show ?thesis
    proof (cases "cc_argument_ref request")
      case None
      then show ?thesis by (auto simp: CreateCall_def r f Executor_CreateCall_def)
    next
      case (Some argument_ref)
      show ?thesis
      proof (cases "RemoteValueToId B argument_ref")
        case (Inl g)
        then show ?thesis
          using RemoteValueToId_Inl_not_ok [OF Inl] by (simp add: CreateCall_def r f Some)
      next
        case (Inr a)
        then show ?thesis by (auto simp: CreateCall_def r f Some Executor_CreateCall_def)
      qed
    qed
  qed
qed

lemma CreateStruct_shape:
  "(\<exists>g. CreateStruct B request s = ((g, None), s) \<and> error_code g \<noteq> OK) \<or>
   (\<exists>ex ids. CreateStruct B request s =
      finish (cs_executor request)
        (own ex (exCreateStruct B (calls s) ex ids),
         s\<lparr>calls := calls s @ [CreateStructEv ex ids]\<rparr>))"
proof (cases "fst (RequireExecutor ''CreateStruct'' (cs_executor request) s)")
  case (Inl g)
  then have "RequireExecutor ''CreateStruct'' (cs_executor request) s = (Inl g, s)"
    using RequireExecutor_pair [of "''CreateStruct''" "cs_executor request" s] by simp
  then show ?thesis using RequireExecutor_Inl_not_ok [OF Inl] by (simp add: CreateStruct_def)
next
  case (Inr ex)
  then have r: "RequireExecutor ''CreateStruct'' (cs_executor request) s = (Inr ex, s)"
    using RequireExecutor_pair [of "''CreateStruct''" "cs_executor request" s] by simp
  show ?thesis
  proof (cases "requested_ids B (cs_element request) []")
    case (Inl g)
    then show ?thesis using requested_ids_Inl_not_ok [OF Inl] by (simp add: CreateStruct_def r)
  next
    case (Inr ids)
    then show ?thesis by (auto simp: CreateStruct_def r Executor_CreateStruct_def)
  qed
qed

lemma CreateSelection_shape:
  "(\<exists>g. CreateSelection B request s = ((g, None), s) \<and> error_code g \<noteq> OK) \<or>
   (\<exists>ex src. CreateSelection B request s =
      finish (sel_executor request)
        (own ex (exCreateSelection B (calls s) ex src (sel_index request)),
         s\<lparr>calls := calls s @ [CreateSelectionEv ex src (sel_index request)]\<rparr>))"
proof (cases "fst (RequireExecutor ''CreateSelection'' (sel_executor request) s)")
  case (Inl g)
  then have "RequireExecutor ''CreateSelection'' (sel_executor request) s = (Inl g, s)"
    using RequireExecutor_pair [of "''CreateSelection''" "sel_executor request" s] by simp
  then show ?thesis using RequireExecutor_Inl_not_ok [OF Inl] by (simp add: CreateSelection_def)
next
  case (Inr ex)
  then have r: "RequireExecutor ''CreateSelection'' (sel_executor request) s = (Inr ex, s)"
    using RequireExecutor_pair [of "''CreateSelection''" "sel_executor request" s] by simp
  show ?thesis
  proof (cases "RemoteValueToId B (sel_source_ref request)")
    case (Inl g)
    then show ?thesis using RemoteValueToId_Inl_not_ok [OF Inl] by (simp add: CreateSelection_def r)
  next
    case (Inr src)
    then show ?thesis by (auto simp: CreateSelection_def r Executor_CreateSelection_def)
  qed
qed





lemma CreateValue_frame:
  assumes "\<not> evicting_failure B s (snd (CreateValue B request s))"
  shows "same_registry s (snd (CreateValue B request s))"
  using CreateValue_shape [of B request s]
proof (elim disjE exE)
  fix g assume "CreateValue B request s = ((g, None), s) \<and> error_code g \<noteq> OK"
  then show ?thesis by (simp add: same_registry_refl)
next
  fix ex
  assume eq: "CreateValue B request s =
      finish (cv_executor request)
        (own ex (exCreateValue B (calls s) ex (cv_payload request)),
         s\<lparr>calls := calls s @ [CreateValueEv ex (cv_payload request)]\<rparr>)"
  show ?thesis
    using assms unfolding eq by (intro finish_frame) (simp_all split: sum.splits)
qed

lemma CreateCall_frame:
  assumes "\<not> evicting_failure B s (snd (CreateCall B request s))"
  shows "same_registry s (snd (CreateCall B request s))"
  using CreateCall_shape [of B request s]
proof (elim disjE exE)
  fix g assume "CreateCall B request s = ((g, None), s) \<and> error_code g \<noteq> OK"
  then show ?thesis by (simp add: same_registry_refl)
next
  fix ex f a
  assume eq: "CreateCall B request s =
      finish (cc_executor request)
        (own ex (exCreateCall B (calls s) ex f a),
         s\<lparr>calls := calls s @ [CreateCallEv ex f a]\<rparr>)"
  show ?thesis
    using assms unfolding eq by (intro finish_frame) (simp_all split: sum.splits)
qed

lemma CreateStruct_frame:
  assumes "\<not> evicting_failure B s (snd (CreateStruct B request s))"
  shows "same_registry s (snd (CreateStruct B request s))"
  using CreateStruct_shape [of B request s]
proof (elim disjE exE)
  fix g assume "CreateStruct B request s = ((g, None), s) \<and> error_code g \<noteq> OK"
  then show ?thesis by (simp add: same_registry_refl)
next
  fix ex ids
  assume eq: "CreateStruct B request s =
      finish (cs_executor request)
        (own ex (exCreateStruct B (calls s) ex ids),
         s\<lparr>calls := calls s @ [CreateStructEv ex ids]\<rparr>)"
  show ?thesis
    using assms unfolding eq by (intro finish_frame) (simp_all split: sum.splits)
qed

lemma CreateSelection_frame:
  assumes "\<not> evicting_failure B s (snd (CreateSelection B request s))"
  shows "same_registry s (snd (CreateSelection B request s))"
  using CreateSelection_shape [of B request s]
proof (elim disjE exE)
  fix g assume "CreateSelection B request s = ((g, None), s) \<and> error_code g \<noteq> OK"
  then show ?thesis by (simp add: same_registry_refl)
next
  fix ex src
  assume eq: "CreateSelection B request s =
      finish (sel_executor request)
        (own ex (exCreateSelection B (calls s) ex src (sel_index request)),
         s\<lparr>calls := calls s @ [CreateSelectionEv ex src (sel_index request)]\<rparr>)"
  show ?thesis
    using assms unfolding eq by (intro finish_frame) (simp_all split: sum.splits)
qed

lemma Compute_frame:
  assumes "\<not> evicting_failure B s (snd (Compute B request s))"
  shows "same_registry s (snd (Compute B request s))"
proof (cases "fst (RequireExecutor ''Compute'' (cp_executor request) s)")
  case (Inl g)
  then have "RequireExecutor ''Compute'' (cp_executor request) s = (Inl g, s)"
    using RequireExecutor_pair [of "''Compute''" "cp_executor request" s] by simp
  then show ?thesis by (simp add: Compute_def same_registry_refl)
next
  case (Inr ex)
  then have r: "RequireExecutor ''Compute'' (cp_executor request) s = (Inr ex, s)"
    using RequireExecutor_pair [of "''Compute''" "cp_executor request" s] by simp
  show ?thesis
  proof (cases "RemoteValueToId B (cp_value_ref request)")
    case (Inl g)
    then show ?thesis by (simp add: Compute_def r same_registry_refl)
  next
    case i: (Inr i)
    obtain st w where m: "exMaterialize B (calls s) ex i = (st, w)"
      by (cases "exMaterialize B (calls s) ex i")
    let ?s1 = "s\<lparr>calls := calls s @ [MaterializeEv ex i]\<rparr>"
    show ?thesis
    proof (cases "ok st \<or> code st \<noteq> kFailedPrecondition")
      case True
      then have "snd (Compute B request s) = ?s1"
        by (auto simp: Compute_def r i m Executor_Materialize_def HandleNotOK_def Let_def)
      then show ?thesis by (simp add: same_registry_def)
    next
      case False
      then have eq: "snd (Compute B request s) =
          DestroyExecutor \<lparr>ex_identifier = cp_executor request\<rparr> ?s1"
        by (simp add: Compute_def r i m Executor_Materialize_def HandleNotOK_def Let_def)
      have "new_calls s (snd (Compute B request s)) = [MaterializeEv ex i]"
        by (rule new_calls_append) (simp add: eq DestroyExecutor_fields)
      moreover have "failure B (calls s) (MaterializeEv ex i) = Some st"
        using False by (simp add: m)
      ultimately have "evicting_failure B s (snd (Compute B request s))"
        using False unfolding evicting_failure_def by blast
      then show ?thesis using assms by simp
    qed
  qed
qed

lemma dispose_ids_frame: "same_registry s (snd (dispose_ids B ex ids s))"
proof (induction ids arbitrary: s)
  case Nil
  show ?case by (simp add: same_registry_def)
next
  case (Cons i ids)
  show ?case
    using Cons [of "s\<lparr>calls := calls s @ [DisposeEv ex i]\<rparr>"]
    by (simp add: Executor_Dispose_def same_registry_def)
qed

lemma Dispose_frame: "same_registry s (snd (Dispose B request s))"
proof (cases "fst (RequireExecutor ''Dispose'' (d_executor request) s)")
  case (Inl g)
  then have "RequireExecutor ''Dispose'' (d_executor request) s = (Inl g, s)"
    using RequireExecutor_pair [of "''Dispose''" "d_executor request" s] by simp
  then show ?thesis by (simp add: Dispose_def same_registry_refl)
next
  case (Inr ex)
  then show ?thesis by (simp add: Dispose_resolved dispose_ids_frame)
qed

lemma demo_busy:
  "exCreateValue demo_backend l ex (Suc 0) = Inl (Status kUnavailable ''busy'')"
  "exCreateCall demo_backend l ex (Suc 0) a = Inl (Status kUnavailable ''busy'')"
  "exCreateStruct demo_backend l ex [Suc 0] = Inl (Status kUnavailable ''busy'')"
  "exCreateSelection demo_backend l ex (Suc 0) i = Inl (Status kUnavailable ''busy'')"
  "exMaterialize demo_backend l ex (Suc 0) = (Status kUnavailable ''busy'', None)"
  "exDispose demo_backend l ex (Suc 0) = Status kUnavailable ''busy''"
  by (simp_all add: demo_backend_def)

lemma demo_decode:
  "RemoteValueToId demo_backend \<lparr>ref_id = ''1''\<rparr> = Inr (Suc 0)"
  "RemoteValueToId demo_backend \<lparr>ref_id = ''7''\<rparr> = Inr 7"
  by (simp_all add: RemoteValueToId_def demo_backend_def demo_atoi_values)

lemma demo_busy_results:
  "CreateValue demo_backend demo_cv_busy demo_one =
     ((grpc_Status UNAVAILABLE ''busy'', None),
      demo_one\<lparr>calls := calls demo_one @ [CreateValueEv 0 (Suc 0)]\<rparr>)"
  "CreateCall demo_backend demo_cc_busy demo_one =
     ((grpc_Status UNAVAILABLE ''busy'', None),
      demo_one\<lparr>calls := calls demo_one @ [CreateCallEv 0 (Suc 0) (Some 7)]\<rparr>)"
  "CreateStruct demo_backend demo_cs_busy demo_one =
     ((grpc_Status UNAVAILABLE ''busy'', None),
      demo_one\<lparr>calls := calls demo_one @ [CreateStructEv 0 [Suc 0]]\<rparr>)"
  "CreateSelection demo_backend demo_sel_busy demo_one =
     ((grpc_Status UNAVAILABLE ''busy'', None),
      demo_one\<lparr>calls := calls demo_one @ [CreateSelectionEv 0 (Suc 0) 2]\<rparr>)"
  "Compute demo_backend demo_cp_busy demo_one =
     ((grpc_Status UNAVAILABLE ''busy'', None),
      demo_one\<lparr>calls := calls demo_one @ [MaterializeEv 0 (Suc 0)]\<rparr>)"
proof -
  have e: "executor demo_entry = 0" by (simp add: demo_entry_def)
  have r: "RequireExecutor m ''clients=3/svc/0'' demo_one = (Inr 0, demo_one)" for m
    by (simp add: RequireExecutor_def ExecutorForId_def demo_one_eq)
  show "CreateValue demo_backend demo_cv_busy demo_one =
     ((grpc_Status UNAVAILABLE ''busy'', None),
      demo_one\<lparr>calls := calls demo_one @ [CreateValueEv 0 (Suc 0)]\<rparr>)"
    by (simp add: CreateValue_def demo_cv_busy_def r Executor_CreateValue_def demo_busy
        finish_failure absl_to_grpc_def)
  show "CreateCall demo_backend demo_cc_busy demo_one =
     ((grpc_Status UNAVAILABLE ''busy'', None),
      demo_one\<lparr>calls := calls demo_one @ [CreateCallEv 0 (Suc 0) (Some 7)]\<rparr>)"
    by (simp add: CreateCall_def demo_cc_busy_def r Executor_CreateCall_def demo_busy demo_decode
        finish_failure absl_to_grpc_def)
  show "CreateStruct demo_backend demo_cs_busy demo_one =
     ((grpc_Status UNAVAILABLE ''busy'', None),
      demo_one\<lparr>calls := calls demo_one @ [CreateStructEv 0 [Suc 0]]\<rparr>)"
    by (simp add: CreateStruct_def demo_cs_busy_def r Executor_CreateStruct_def demo_busy
        demo_decode finish_failure absl_to_grpc_def)
  show "CreateSelection demo_backend demo_sel_busy demo_one =
     ((grpc_Status UNAVAILABLE ''busy'', None),
      demo_one\<lparr>calls := calls demo_one @ [CreateSelectionEv 0 (Suc 0) 2]\<rparr>)"
    by (simp add: CreateSelection_def demo_sel_busy_def r Executor_CreateSelection_def demo_busy
        demo_decode finish_failure absl_to_grpc_def)
  show "Compute demo_backend demo_cp_busy demo_one =
     ((grpc_Status UNAVAILABLE ''busy'', None),
      demo_one\<lparr>calls := calls demo_one @ [MaterializeEv 0 (Suc 0)]\<rparr>)"
    by (simp add: Compute_def demo_cp_busy_def r Executor_Materialize_def demo_busy
        demo_decode HandleNotOK_def ok_def absl_to_grpc_def)
qed

lemma demo_cv_ok_result:
  "CreateValue demo_backend demo_cv_ok demo_one =
     ((grpc_Status_OK, Some \<lparr>ref_id = ''1''\<rparr>),
      demo_one\<lparr>calls := calls demo_one @ [CreateValueEv 0 5, ForgetEv 0 1]\<rparr>)"
proof -
  have e: "executor demo_entry = 0" by (simp add: demo_entry_def)
  have r: "RequireExecutor ''CreateValue'' ''clients=3/svc/0'' demo_one = (Inr 0, demo_one)"
    by (simp add: RequireExecutor_def ExecutorForId_def demo_one_eq)
  have v: "exCreateValue demo_backend (calls demo_one) 0 5 = Inr 1"
    by (simp add: demo_backend_def demo_one_eq)
  show ?thesis
    by (simp add: CreateValue_def demo_cv_ok_def r Executor_CreateValue_def v finish_success
        IdToRemoteValue_def StrCat_nat_small digit_char_def)
qed

subsection \<open>The success path\<close>









subsection \<open>Every handler moves the registry by resolver operations\<close>

lemma logged_step: "(step B)\<^sup>*\<^sup>* s (s\<lparr>calls := l\<rparr>)"
  by (rule r_into_rtranclp) (rule step.Collaborators)

lemma logged_destroy_steps:
  "(step B)\<^sup>*\<^sup>* s (DestroyExecutor ex_id (s\<lparr>calls := l\<rparr>))"
  by (rule rtranclp.rtrancl_into_rtrancl [OF logged_step]) (rule step.Destroying)

lemma finish_steps:
  "(step B)\<^sup>*\<^sup>* s (snd (finish k (own ex res, s\<lparr>calls := l\<rparr>)))"
proof (cases res)
  case (Inl st)
  then show ?thesis
    by (simp add: finish_failure logged_step logged_destroy_steps)
next
  case (Inr i)
  then show ?thesis
    using logged_step [of B s "l @ [ForgetEv ex i]"] by (simp add: finish_success)
qed

lemma dispose_ids_logged: "\<exists>l. snd (dispose_ids B ex ids s) = s\<lparr>calls := l\<rparr>"
proof (induction ids arbitrary: s)
  case Nil
  have "s = s\<lparr>calls := calls s\<rparr>" by simp
  then show ?case by (metis dispose_ids.simps(1) snd_conv)
next
  case (Cons i ids)
  let ?s1 = "s\<lparr>calls := calls s @ [DisposeEv ex i]\<rparr>"
  show ?case
  proof (cases "ok (exDispose B (calls s) ex i)")
    case True
    obtain l where "snd (dispose_ids B ex ids ?s1) = ?s1\<lparr>calls := l\<rparr>"
      using Cons [of ?s1] by blast
    then have "snd (dispose_ids B ex (i # ids) s) = s\<lparr>calls := l\<rparr>"
      using True by (simp add: Executor_Dispose_def)
    then show ?thesis by blast
  next
    case False
    then have "snd (dispose_ids B ex (i # ids) s) = ?s1"
      by (simp add: Executor_Dispose_def)
    then show ?thesis by blast
  qed
qed

lemma handler_steps:
  "(step B)\<^sup>*\<^sup>* s (snd (GetExecutor B r0 s))"
  "(step B)\<^sup>*\<^sup>* s (snd (CreateValue B r1 s))"
  "(step B)\<^sup>*\<^sup>* s (snd (CreateCall B r2 s))"
  "(step B)\<^sup>*\<^sup>* s (snd (CreateStruct B r3 s))"
  "(step B)\<^sup>*\<^sup>* s (snd (CreateSelection B r4 s))"
  "(step B)\<^sup>*\<^sup>* s (snd (Compute B r5 s))"
  "(step B)\<^sup>*\<^sup>* s (snd (Dispose B r6 s))"
  "(step B)\<^sup>*\<^sup>* s (snd (Service_DisposeExecutor r7 s))"
proof -
  have "snd (GetExecutor B r0 s)
      = snd (ExecutorForRequirements B \<lparr>cardinalities = request_cardinalities r0\<rparr> s)"
    by (simp add: GetExecutor_def split: prod.splits sum.splits)
  then show "(step B)\<^sup>*\<^sup>* s (snd (GetExecutor B r0 s))"
    using step.ForRequirements [of B s "\<lparr>cardinalities = request_cardinalities r0\<rparr>"] by simp
  show "(step B)\<^sup>*\<^sup>* s (snd (CreateValue B r1 s))"
    using CreateValue_shape [of B r1 s] by (auto simp: finish_steps)
  show "(step B)\<^sup>*\<^sup>* s (snd (CreateCall B r2 s))"
    using CreateCall_shape [of B r2 s] by (auto simp: finish_steps)
  show "(step B)\<^sup>*\<^sup>* s (snd (CreateStruct B r3 s))"
    using CreateStruct_shape [of B r3 s] by (auto simp: finish_steps)
  show "(step B)\<^sup>*\<^sup>* s (snd (CreateSelection B r4 s))"
    using CreateSelection_shape [of B r4 s] by (auto simp: finish_steps)
  show "(step B)\<^sup>*\<^sup>* s (snd (Compute B r5 s))"
  proof (cases "fst (RequireExecutor ''Compute'' (cp_executor r5) s)")
    case (Inl g)
    then have "RequireExecutor ''Compute'' (cp_executor r5) s = (Inl g, s)"
      using RequireExecutor_pair [of "''Compute''" "cp_executor r5" s] by simp
    then show ?thesis by (simp add: Compute_def)
  next
    case (Inr ex)
    then have r: "RequireExecutor ''Compute'' (cp_executor r5) s = (Inr ex, s)"
      using RequireExecutor_pair [of "''Compute''" "cp_executor r5" s] by simp
    show ?thesis
    proof (cases "RemoteValueToId B (cp_value_ref r5)")
      case (Inl g)
      then show ?thesis by (simp add: Compute_def r)
    next
      case i: (Inr i)
      obtain st w where m: "exMaterialize B (calls s) ex i = (st, w)"
        by (cases "exMaterialize B (calls s) ex i")
      show ?thesis
        by (simp add: Compute_def r i m Executor_Materialize_def HandleNotOK_def Let_def
            logged_step logged_destroy_steps)
    qed
  qed
  show "(step B)\<^sup>*\<^sup>* s (snd (Dispose B r6 s))"
  proof (cases "fst (RequireExecutor ''Dispose'' (d_executor r6) s)")
    case (Inl g)
    then have "RequireExecutor ''Dispose'' (d_executor r6) s = (Inl g, s)"
      using RequireExecutor_pair [of "''Dispose''" "d_executor r6" s] by simp
    then show ?thesis by (simp add: Dispose_def)
  next
    case (Inr ex)
    then show ?thesis
      using dispose_ids_logged [of B ex "decodable B (d_value_ref r6)" s]
      by (auto simp: Dispose_resolved logged_step)
  qed
  have "snd (Service_DisposeExecutor r7 s) = snd (DisposeExecutor \<lparr>ex_identifier = de_executor r7\<rparr> s)"
    by (simp add: Service_DisposeExecutor_def split: prod.splits)
  then show "(step B)\<^sup>*\<^sup>* s (snd (Service_DisposeExecutor r7 s))"
    using step.Disposing [of B s "\<lparr>ex_identifier = de_executor r7\<rparr>"] by simp
qed

section \<open>The claims\<close>

text \<open>
  Claim C1 (fault eviction). In a reachable state, when the executor of a
  \<open>CreateValue\<close>, \<open>CreateCall\<close>, \<open>CreateStruct\<close>, \<open>CreateSelection\<close> or \<open>Compute\<close> request
  resolves, its references decode and the capability call fails with the status
  \<open>st\<close>, the handler returns \<open>st\<close> translated. If \<open>st\<close> is a failed-precondition error the
  state it leaves is the one \<open>DestroyExecutor\<close> leaves for the identifier of the request,
  and every later lookup of that identifier, after any further operations on the
  registry, fails with the unknown-executor (failed-precondition) error, whatever the
  refcount was; if \<open>st\<close> is of any other class, the registry is as it was.
\<close>

theorem fault_eviction:
  assumes "reachable B s"
  shows
    "(\<forall>e st. fst (ExecutorForId \<lparr>ex_identifier = cv_executor r1\<rparr> ''CreateValue'' s) = Inr e \<and>
        exCreateValue B (calls s) (executor e) (cv_payload r1) = Inl st \<longrightarrow>
        faulted B st (cv_executor r1) s (CreateValue B r1 s))
     \<and> (\<forall>e f a st. fst (ExecutorForId \<lparr>ex_identifier = cc_executor r2\<rparr> ''CreateCall'' s) = Inr e \<and>
        RemoteValueToId B (cc_function_ref r2) = Inr f \<and> argument_decodes B r2 a \<and>
        exCreateCall B (calls s) (executor e) f a = Inl st \<longrightarrow>
        faulted B st (cc_executor r2) s (CreateCall B r2 s))
     \<and> (\<forall>e ids st. fst (ExecutorForId \<lparr>ex_identifier = cs_executor r3\<rparr> ''CreateStruct'' s) = Inr e \<and>
        requested_ids B (cs_element r3) [] = Inr ids \<and>
        exCreateStruct B (calls s) (executor e) ids = Inl st \<longrightarrow>
        faulted B st (cs_executor r3) s (CreateStruct B r3 s))
     \<and> (\<forall>e src st. fst (ExecutorForId \<lparr>ex_identifier = sel_executor r4\<rparr> ''CreateSelection'' s) = Inr e \<and>
        RemoteValueToId B (sel_source_ref r4) = Inr src \<and>
        exCreateSelection B (calls s) (executor e) src (sel_index r4) = Inl st \<longrightarrow>
        faulted B st (sel_executor r4) s (CreateSelection B r4 s))
     \<and> (\<forall>e i. fst (ExecutorForId \<lparr>ex_identifier = cp_executor r5\<rparr> ''Compute'' s) = Inr e \<and>
        RemoteValueToId B (cp_value_ref r5) = Inr i \<and>
        \<not> ok (fst (exMaterialize B (calls s) (executor e) i)) \<longrightarrow>
        faulted B (fst (exMaterialize B (calls s) (executor e) i)) (cp_executor r5) s
          (Compute B r5 s))"
proof (intro conjI allI impI)
  fix e st
  assume a: "fst (ExecutorForId \<lparr>ex_identifier = cv_executor r1\<rparr> ''CreateValue'' s) = Inr e \<and>
        exCreateValue B (calls s) (executor e) (cv_payload r1) = Inl st"
  show "faulted B st (cv_executor r1) s (CreateValue B r1 s)"
    by (rule HandleNotOK_faulted [OF assms conjunct1 [OF a]])
      (simp_all add: CreateValue_failure [OF conjunct1 [OF a] conjunct2 [OF a]])
next
  fix e f a st
  assume a: "fst (ExecutorForId \<lparr>ex_identifier = cc_executor r2\<rparr> ''CreateCall'' s) = Inr e \<and>
        RemoteValueToId B (cc_function_ref r2) = Inr f \<and> argument_decodes B r2 a \<and>
        exCreateCall B (calls s) (executor e) f a = Inl st"
  then have eq: "CreateCall B r2 s =
     ((absl_to_grpc st, None),
      if code st = kFailedPrecondition
      then DestroyExecutor \<lparr>ex_identifier = cc_executor r2\<rparr>
             (s\<lparr>calls := calls s @ [CreateCallEv (executor e) f a]\<rparr>)
      else s\<lparr>calls := calls s @ [CreateCallEv (executor e) f a]\<rparr>)"
    using CreateCall_failure by blast
  show "faulted B st (cc_executor r2) s (CreateCall B r2 s)"
    by (rule HandleNotOK_faulted [OF assms conjunct1 [OF a]]) (simp_all add: eq)
next
  fix e ids st
  assume a: "fst (ExecutorForId \<lparr>ex_identifier = cs_executor r3\<rparr> ''CreateStruct'' s) = Inr e \<and>
        requested_ids B (cs_element r3) [] = Inr ids \<and>
        exCreateStruct B (calls s) (executor e) ids = Inl st"
  then have eq: "CreateStruct B r3 s =
     ((absl_to_grpc st, None),
      if code st = kFailedPrecondition
      then DestroyExecutor \<lparr>ex_identifier = cs_executor r3\<rparr>
             (s\<lparr>calls := calls s @ [CreateStructEv (executor e) ids]\<rparr>)
      else s\<lparr>calls := calls s @ [CreateStructEv (executor e) ids]\<rparr>)"
    using CreateStruct_failure by blast
  show "faulted B st (cs_executor r3) s (CreateStruct B r3 s)"
    by (rule HandleNotOK_faulted [OF assms conjunct1 [OF a]]) (simp_all add: eq)
next
  fix e src st
  assume a: "fst (ExecutorForId \<lparr>ex_identifier = sel_executor r4\<rparr> ''CreateSelection'' s) = Inr e \<and>
        RemoteValueToId B (sel_source_ref r4) = Inr src \<and>
        exCreateSelection B (calls s) (executor e) src (sel_index r4) = Inl st"
  then have eq: "CreateSelection B r4 s =
     ((absl_to_grpc st, None),
      if code st = kFailedPrecondition
      then DestroyExecutor \<lparr>ex_identifier = sel_executor r4\<rparr>
             (s\<lparr>calls := calls s @ [CreateSelectionEv (executor e) src (sel_index r4)]\<rparr>)
      else s\<lparr>calls := calls s @ [CreateSelectionEv (executor e) src (sel_index r4)]\<rparr>)"
    using CreateSelection_failure by blast
  show "faulted B st (sel_executor r4) s (CreateSelection B r4 s)"
    by (rule HandleNotOK_faulted [OF assms conjunct1 [OF a]]) (simp_all add: eq)
next
  fix e i
  assume a: "fst (ExecutorForId \<lparr>ex_identifier = cp_executor r5\<rparr> ''Compute'' s) = Inr e \<and>
        RemoteValueToId B (cp_value_ref r5) = Inr i \<and>
        \<not> ok (fst (exMaterialize B (calls s) (executor e) i))"
  note eq = Compute_failure [OF conjunct1 [OF a] conjunct1 [OF conjunct2 [OF a]]
      conjunct2 [OF conjunct2 [OF a]]]
  show "faulted B (fst (exMaterialize B (calls s) (executor e) i)) (cp_executor r5) s
          (Compute B r5 s)"
    by (rule HandleNotOK_faulted [OF assms conjunct1 [OF a]]) (simp_all add: eq)
qed

theorem fault_eviction_witness:
  "reachable demo_backend demo_one
   \<and> faulted demo_backend (Status kFailedPrecondition ''lost'') ''clients=3/svc/0'' demo_one
       (CreateValue demo_backend demo_cv_lost demo_one)
   \<and> faulted demo_backend (Status kFailedPrecondition ''lost'') ''clients=3/svc/0'' demo_one
       (CreateCall demo_backend demo_cc_lost demo_one)
   \<and> faulted demo_backend (Status kFailedPrecondition ''lost'') ''clients=3/svc/0'' demo_one
       (CreateStruct demo_backend demo_cs_lost demo_one)
   \<and> faulted demo_backend (Status kFailedPrecondition ''lost'') ''clients=3/svc/0'' demo_one
       (CreateSelection demo_backend demo_sel_lost demo_one)
   \<and> faulted demo_backend (Status kFailedPrecondition ''lost'') ''clients=3/svc/0'' demo_one
       (Compute demo_backend demo_cp_lost demo_one)
   \<and> (\<exists>m. fst (ExecutorForId \<lparr>ex_identifier = ''clients=3/svc/0''\<rparr> ''Compute''
               (snd (CreateValue demo_backend demo_cv_lost demo_one)))
          = Inl (Status kFailedPrecondition m))
   \<and> faulted demo_backend (Status kUnavailable ''busy'') ''clients=3/svc/0'' demo_one
       (CreateValue demo_backend demo_cv_busy demo_one)
   \<and> same_registry demo_one (snd (CreateValue demo_backend demo_cv_busy demo_one))"
proof -
  note T = fault_eviction [OF demo_one_reachable,
      of demo_cv_lost demo_cc_lost demo_cs_lost demo_sel_lost demo_cp_lost]
  note T' = fault_eviction [OF demo_one_reachable,
      of demo_cv_busy demo_cc_lost demo_cs_lost demo_sel_lost demo_cp_lost]
  have h1': "fst (ExecutorForId \<lparr>ex_identifier = cv_executor demo_cv_busy\<rparr> ''CreateValue'' demo_one)
        = Inr demo_entry \<and>
      exCreateValue demo_backend (calls demo_one) (executor demo_entry) (cv_payload demo_cv_busy)
        = Inl (Status kUnavailable ''busy'')"
    by (simp add: demo_cv_busy_def demo_one_lookup demo_busy)
  have f6: "faulted demo_backend (Status kUnavailable ''busy'') ''clients=3/svc/0'' demo_one
       (CreateValue demo_backend demo_cv_busy demo_one)"
    using T' [THEN conjunct1, rule_format, OF h1'] by (simp add: demo_cv_busy_def)
  then have g6: "same_registry demo_one (snd (CreateValue demo_backend demo_cv_busy demo_one))"
    by (simp add: faulted_def)
  have h1: "fst (ExecutorForId \<lparr>ex_identifier = cv_executor demo_cv_lost\<rparr> ''CreateValue'' demo_one)
        = Inr demo_entry \<and>
      exCreateValue demo_backend (calls demo_one) (executor demo_entry) (cv_payload demo_cv_lost)
        = Inl (Status kFailedPrecondition ''lost'')"
    by (simp add: demo_cv_lost_def demo_one_lookup demo_lost)
  have h2: "fst (ExecutorForId \<lparr>ex_identifier = cc_executor demo_cc_lost\<rparr> ''CreateCall'' demo_one)
        = Inr demo_entry \<and>
      RemoteValueToId demo_backend (cc_function_ref demo_cc_lost) = Inr 0 \<and>
      argument_decodes demo_backend demo_cc_lost None \<and>
      exCreateCall demo_backend (calls demo_one) (executor demo_entry) 0 None
        = Inl (Status kFailedPrecondition ''lost'')"
    by (simp add: demo_cc_lost_def demo_one_lookup demo_decode_0 argument_decodes_def demo_lost)
  have h3: "fst (ExecutorForId \<lparr>ex_identifier = cs_executor demo_cs_lost\<rparr> ''CreateStruct'' demo_one)
        = Inr demo_entry \<and>
      requested_ids demo_backend (cs_element demo_cs_lost) [] = Inr [] \<and>
      exCreateStruct demo_backend (calls demo_one) (executor demo_entry) []
        = Inl (Status kFailedPrecondition ''lost'')"
    by (simp add: demo_cs_lost_def demo_one_lookup demo_lost)
  have h4: "fst (ExecutorForId \<lparr>ex_identifier = sel_executor demo_sel_lost\<rparr> ''CreateSelection'' demo_one)
        = Inr demo_entry \<and>
      RemoteValueToId demo_backend (sel_source_ref demo_sel_lost) = Inr 0 \<and>
      exCreateSelection demo_backend (calls demo_one) (executor demo_entry) 0 (sel_index demo_sel_lost)
        = Inl (Status kFailedPrecondition ''lost'')"
    by (simp add: demo_sel_lost_def demo_one_lookup demo_decode_0 demo_lost)
  have m5: "exMaterialize demo_backend (calls demo_one) (executor demo_entry) 0
        = (Status kFailedPrecondition ''lost'', None)"
    by (simp add: demo_lost)
  have h5: "fst (ExecutorForId \<lparr>ex_identifier = cp_executor demo_cp_lost\<rparr> ''Compute'' demo_one)
        = Inr demo_entry \<and>
      RemoteValueToId demo_backend (cp_value_ref demo_cp_lost) = Inr 0 \<and>
      \<not> ok (fst (exMaterialize demo_backend (calls demo_one) (executor demo_entry) 0))"
    by (simp add: demo_cp_lost_def demo_one_lookup demo_decode_0 m5 ok_def)
  have f1: "faulted demo_backend (Status kFailedPrecondition ''lost'') ''clients=3/svc/0'' demo_one
       (CreateValue demo_backend demo_cv_lost demo_one)"
    using T [THEN conjunct1, rule_format, OF h1] by (simp add: demo_cv_lost_def)
  have f2: "faulted demo_backend (Status kFailedPrecondition ''lost'') ''clients=3/svc/0'' demo_one
       (CreateCall demo_backend demo_cc_lost demo_one)"
    using T [THEN conjunct2, THEN conjunct1, rule_format, OF h2] by (simp add: demo_cc_lost_def)
  have f3: "faulted demo_backend (Status kFailedPrecondition ''lost'') ''clients=3/svc/0'' demo_one
       (CreateStruct demo_backend demo_cs_lost demo_one)"
    using T [THEN conjunct2, THEN conjunct2, THEN conjunct1, rule_format, OF h3]
    by (simp add: demo_cs_lost_def)
  have f4: "faulted demo_backend (Status kFailedPrecondition ''lost'') ''clients=3/svc/0'' demo_one
       (CreateSelection demo_backend demo_sel_lost demo_one)"
    using T [THEN conjunct2, THEN conjunct2, THEN conjunct2, THEN conjunct1, rule_format, OF h4]
    by (simp add: demo_sel_lost_def)
  have f5: "faulted demo_backend (Status kFailedPrecondition ''lost'') ''clients=3/svc/0'' demo_one
       (Compute demo_backend demo_cp_lost demo_one)"
    using T [THEN conjunct2, THEN conjunct2, THEN conjunct2, THEN conjunct2, rule_format, OF h5]
    by (simp add: demo_cp_lost_def m5)
  have "gone_for_good demo_backend ''clients=3/svc/0''
          (snd (CreateValue demo_backend demo_cv_lost demo_one))"
    using f1 by (simp add: faulted_def)
  then have g: "\<exists>m. fst (ExecutorForId \<lparr>ex_identifier = ''clients=3/svc/0''\<rparr> ''Compute''
               (snd (CreateValue demo_backend demo_cv_lost demo_one)))
          = Inl (Status kFailedPrecondition m)"
    by (rule gone_for_good_now)
  show ?thesis using demo_one_reachable f1 f2 f3 f4 f5 g f6 g6 by blast
qed

text \<open>
  Claim C2 (refcount symmetry). In a reachable state with no entry for the canonical
  string of the request's cardinality map, and with a factory that builds the executor,
  \<open>GetExecutor\<close> issued \<open>n \<ge> 1\<close> times returns the same identifier every time;
  after \<open>j < n\<close> of the following \<open>DisposeExecutor\<close> calls on that identifier the
  entry is in both tables with refcount \<open>n - j\<close>, and after the \<open>n\<close>-th neither table
  has it.
\<close>

theorem refcount_symmetry:
  assumes "reachable B s" "1 \<le> n"
    "executors s (request_string request) = None"
    "ex_factory B (calls s) (request_cardinalities request) = Inr ex"
  shows
    "let cs = request_string request;
         k = next_key cs s;
         sn = GetExecutor_times B request n s
     in (\<forall>i<n. fst (GetExecutor B request (GetExecutor_times B request i s))
                  = (grpc_Status_OK, Some k))
        \<and> (\<forall>j<n. keys_to_cardinalities (DisposeExecutor_times k j sn) k = Some cs
                  \<and> executors (DisposeExecutor_times k j sn) cs
                      = Some \<lparr>executor = ex, remote_refcount = int n - int j, executor_id = k\<rparr>)
        \<and> keys_to_cardinalities (DisposeExecutor_times k n sn) k = None
        \<and> executors (DisposeExecutor_times k n sn) cs = None"
proof -
  let ?cs = "CardinalitiesToString (request_cardinalities request)"
  let ?k = "make_executor_key ?cs (service_id s) (executor_index s)"
  let ?e = "\<lparr>executor = ex, remote_refcount = 1, executor_id = ?k\<rparr>"
  let ?s1 = "s\<lparr>calls := calls s @ [FactoryEv (request_cardinalities request)],
        executor_index := executor_index s + 1,
        keys_to_cardinalities := (keys_to_cardinalities s)(?k \<mapsto> ?cs),
        executors := (executors s)(?cs \<mapsto> ?e)\<rparr>"
  have inv: "registry_inv s" using assms(1) by (rule reachable_inv)
  have first: "GetExecutor B request s = ((grpc_Status_OK, Some ?k), ?s1)"
    using GetExecutor_first [OF inv assms(3) [unfolded request_string_def] assms(4)] .
  have e1: "executors ?s1 ?cs = Some ?e" by simp
  have times: "GetExecutor_times B request (Suc m) s =
      ?s1\<lparr>executors := (executors ?s1)(?cs \<mapsto> ?e\<lparr>remote_refcount := 1 + int m\<rparr>)\<rparr>" for m
  proof -
    have "GetExecutor_times B request (Suc m) s = GetExecutor_times B request m ?s1"
      unfolding GetExecutor_times_def funpow_shift by (simp add: first)
    then show ?thesis
      using GetExecutor_times_existing [OF e1, of B m] by simp
  qed
  have returned: "fst (GetExecutor B request (GetExecutor_times B request i s)) = (grpc_Status_OK, Some ?k)"
    for i
  proof (cases i)
    case 0
    then show ?thesis by (simp add: GetExecutor_times_def first)
  next
    case (Suc m)
    let ?sm = "?s1\<lparr>executors := (executors ?s1)(?cs \<mapsto> ?e\<lparr>remote_refcount := 1 + int m\<rparr>)\<rparr>"
    have "executors ?sm ?cs = Some (?e\<lparr>remote_refcount := 1 + int m\<rparr>)" by simp
    from GetExecutor_existing [OF this, of B] show ?thesis
      by (simp add: Suc times)
  qed
  obtain m where n: "n = Suc m" using assms(2) by (cases n) auto
  let ?en = "\<lparr>executor = ex, remote_refcount = int n, executor_id = ?k\<rparr>"
  let ?sn = "GetExecutor_times B request n s"
  have sn: "?sn = ?s1\<lparr>executors := (executors ?s1)(?cs \<mapsto> ?en)\<rparr>"
    using times [of m] n by simp
  have kn: "keys_to_cardinalities ?sn ?k = Some ?cs" and en: "executors ?sn ?cs = Some ?en"
    by (simp_all add: sn)
  have rn: "remote_refcount ?en = int n" by simp
  have live: "keys_to_cardinalities (DisposeExecutor_times ?k j ?sn) ?k = Some ?cs
      \<and> executors (DisposeExecutor_times ?k j ?sn) ?cs
          = Some \<lparr>executor = ex, remote_refcount = int n - int j, executor_id = ?k\<rparr>"
    if "j < n" for j
    using DisposeExecutor_times_live [OF kn en rn that] kn by simp
  have last: "keys_to_cardinalities (DisposeExecutor_times ?k n ?sn) ?k = None
      \<and> executors (DisposeExecutor_times ?k n ?sn) ?cs = None"
    using DisposeExecutor_times_last [OF kn en rn assms(2)] by simp
  show ?thesis
    unfolding Let_def request_string_def next_key_def using returned live last by blast
qed

theorem refcount_symmetry_witness:
  "reachable demo_backend demo_empty
   \<and> fst (GetExecutor demo_backend demo_request demo_empty)
       = (grpc_Status_OK, Some ''clients=3/svc/0'')
   \<and> fst (GetExecutor demo_backend demo_request (GetExecutor_times demo_backend demo_request 1 demo_empty))
       = (grpc_Status_OK, Some ''clients=3/svc/0'')
   \<and> executors (DisposeExecutor_times ''clients=3/svc/0'' 1
                   (GetExecutor_times demo_backend demo_request 2 demo_empty)) ''clients=3''
       = Some \<lparr>executor = 0, remote_refcount = 1, executor_id = ''clients=3/svc/0''\<rparr>
   \<and> keys_to_cardinalities (DisposeExecutor_times ''clients=3/svc/0'' 2
                   (GetExecutor_times demo_backend demo_request 2 demo_empty)) ''clients=3/svc/0''
       = None
   \<and> executors (DisposeExecutor_times ''clients=3/svc/0'' 2
                   (GetExecutor_times demo_backend demo_request 2 demo_empty)) ''clients=3''
       = None"
proof -
  have h2: "1 \<le> (2::nat)" by simp
  have h3: "executors demo_empty (request_string demo_request) = None"
    by (simp add: demo_empty_def)
  have h4: "ex_factory demo_backend (calls demo_empty) (request_cardinalities demo_request) = Inr 0"
    by (simp add: demo_request_string demo_backend_def demo_empty_def)
  note T = refcount_symmetry [OF demo_empty_reachable h2 h3 h4,
      unfolded Let_def request_string_def next_key_def demo_request_string]
  have "GetExecutor_times demo_backend demo_request 0 demo_empty = demo_empty"
    by (simp add: GetExecutor_times_def)
  with T [THEN conjunct1, rule_format, of 0] T [THEN conjunct1, rule_format, of 1]
    T [THEN conjunct2, THEN conjunct1, rule_format, of 1]
    T [THEN conjunct2, THEN conjunct2] demo_empty_reachable
  show ?thesis by simp
qed



text \<open>
  Claim C4, as stated, fails on the value-level \<open>Dispose\<close>: the handler returns the error
  of the executor's dispose call without going through \<open>HandleNotOK\<close>. Here the dispose
  call fails with a failed-precondition error, the handler returns it, the state is
  not the one \<open>DestroyExecutor\<close> would leave, and the identifier still resolves.
\<close>

theorem Dispose_failure_keeps_executor:
  "fst (RequireExecutor ''Dispose'' (d_executor demo_dispose_lost) demo_one) = Inr 0
   \<and> exDispose demo_backend (calls demo_one) 0 0 = Status kFailedPrecondition ''lost''
   \<and> Dispose demo_backend demo_dispose_lost demo_one =
       (grpc_Status FAILED_PRECONDITION ''lost'',
        demo_one\<lparr>calls := calls demo_one @ [DisposeEv 0 0]\<rparr>)
   \<and> snd (Dispose demo_backend demo_dispose_lost demo_one) \<noteq>
       DestroyExecutor \<lparr>ex_identifier = ''clients=3/svc/0''\<rparr>
         (demo_one\<lparr>calls := calls demo_one @ [DisposeEv 0 0]\<rparr>)
   \<and> fst (ExecutorForId \<lparr>ex_identifier = ''clients=3/svc/0''\<rparr> ''Dispose''
            (snd (Dispose demo_backend demo_dispose_lost demo_one))) = Inr demo_entry"
proof -
  let ?s1 = "demo_one\<lparr>calls := calls demo_one @ [DisposeEv 0 0]\<rparr>"
  have a: "keys_to_cardinalities ?s1 ''clients=3/svc/0'' = Some ''clients=3''"
    by (simp add: demo_one_eq)
  have b: "keys_to_cardinalities (DestroyExecutor \<lparr>ex_identifier = ''clients=3/svc/0''\<rparr> ?s1)
             ''clients=3/svc/0'' = None"
    by (simp add: DestroyExecutor_fields)
  have ne: "?s1 \<noteq> DestroyExecutor \<lparr>ex_identifier = ''clients=3/svc/0''\<rparr> ?s1"
    using a b by (metis option.distinct(1))
  have l: "fst (ExecutorForId \<lparr>ex_identifier = ''clients=3/svc/0''\<rparr> ''Dispose'' ?s1) = Inr demo_entry"
    by (simp add: ExecutorForId_def demo_one_eq demo_entry_def)
  show ?thesis
    using ne l
    by (simp add: demo_dispose_lost_result demo_lost) (simp add: demo_dispose_lost_def demo_one_resolves)
qed

text \<open>
  Claim C4, amended. For the capability calls of \<open>CreateValue\<close>, \<open>CreateCall\<close>,
  \<open>CreateStruct\<close>, \<open>CreateSelection\<close> and \<open>Compute\<close>: an error of the executor is returned
  translated, after \<open>DestroyExecutor\<close> on the identifier of the request when the error
  is a failed-precondition error, and with no change but the logged call otherwise. An
  error of the dispose call made for a \<open>Dispose\<close> request is returned translated with no
  change but the logged calls, whatever its class: \<open>Dispose\<close> never evicts.
\<close>

theorem eviction_by_handler:
  "(\<forall>e st. fst (ExecutorForId \<lparr>ex_identifier = cv_executor r1\<rparr> ''CreateValue'' s) = Inr e \<and>
        exCreateValue B (calls s) (executor e) (cv_payload r1) = Inl st \<longrightarrow>
        propagated st (cv_executor r1)
          (s\<lparr>calls := calls s @ [CreateValueEv (executor e) (cv_payload r1)]\<rparr>)
          (CreateValue B r1 s))
   \<and> (\<forall>e f a st. fst (ExecutorForId \<lparr>ex_identifier = cc_executor r2\<rparr> ''CreateCall'' s) = Inr e \<and>
        RemoteValueToId B (cc_function_ref r2) = Inr f \<and> argument_decodes B r2 a \<and>
        exCreateCall B (calls s) (executor e) f a = Inl st \<longrightarrow>
        propagated st (cc_executor r2)
          (s\<lparr>calls := calls s @ [CreateCallEv (executor e) f a]\<rparr>) (CreateCall B r2 s))
   \<and> (\<forall>e ids st. fst (ExecutorForId \<lparr>ex_identifier = cs_executor r3\<rparr> ''CreateStruct'' s) = Inr e \<and>
        requested_ids B (cs_element r3) [] = Inr ids \<and>
        exCreateStruct B (calls s) (executor e) ids = Inl st \<longrightarrow>
        propagated st (cs_executor r3)
          (s\<lparr>calls := calls s @ [CreateStructEv (executor e) ids]\<rparr>) (CreateStruct B r3 s))
   \<and> (\<forall>e src st. fst (ExecutorForId \<lparr>ex_identifier = sel_executor r4\<rparr> ''CreateSelection'' s) = Inr e \<and>
        RemoteValueToId B (sel_source_ref r4) = Inr src \<and>
        exCreateSelection B (calls s) (executor e) src (sel_index r4) = Inl st \<longrightarrow>
        propagated st (sel_executor r4)
          (s\<lparr>calls := calls s @ [CreateSelectionEv (executor e) src (sel_index r4)]\<rparr>)
          (CreateSelection B r4 s))
   \<and> (\<forall>e i. fst (ExecutorForId \<lparr>ex_identifier = cp_executor r5\<rparr> ''Compute'' s) = Inr e \<and>
        RemoteValueToId B (cp_value_ref r5) = Inr i \<and>
        \<not> ok (fst (exMaterialize B (calls s) (executor e) i)) \<longrightarrow>
        propagated (fst (exMaterialize B (calls s) (executor e) i)) (cp_executor r5)
          (s\<lparr>calls := calls s @ [MaterializeEv (executor e) i]\<rparr>) (Compute B r5 s))
   \<and> (\<forall>ex j. fst (RequireExecutor ''Dispose'' (d_executor r6) s) = Inr ex \<and>
        j < length (decodable B (d_value_ref r6)) \<and>
        \<not> ok (dispose_reply B s ex (decodable B (d_value_ref r6)) j) \<and>
        (\<forall>i<j. ok (dispose_reply B s ex (decodable B (d_value_ref r6)) i)) \<longrightarrow>
        Dispose B r6 s =
          (absl_to_grpc (dispose_reply B s ex (decodable B (d_value_ref r6)) j),
           s\<lparr>calls := calls s @ map (DisposeEv ex) (take (Suc j) (decodable B (d_value_ref r6)))\<rparr>))"
proof (intro conjI allI impI)
  fix e st
  assume "fst (ExecutorForId \<lparr>ex_identifier = cv_executor r1\<rparr> ''CreateValue'' s) = Inr e \<and>
        exCreateValue B (calls s) (executor e) (cv_payload r1) = Inl st"
  then show "propagated st (cv_executor r1)
          (s\<lparr>calls := calls s @ [CreateValueEv (executor e) (cv_payload r1)]\<rparr>)
          (CreateValue B r1 s)"
    using CreateValue_failure [of r1 "''CreateValue''" s e B st] by (simp add: propagated_def)
next
  fix e f a st
  assume "fst (ExecutorForId \<lparr>ex_identifier = cc_executor r2\<rparr> ''CreateCall'' s) = Inr e \<and>
        RemoteValueToId B (cc_function_ref r2) = Inr f \<and> argument_decodes B r2 a \<and>
        exCreateCall B (calls s) (executor e) f a = Inl st"
  then show "propagated st (cc_executor r2)
          (s\<lparr>calls := calls s @ [CreateCallEv (executor e) f a]\<rparr>) (CreateCall B r2 s)"
    using CreateCall_failure [of r2 "''CreateCall''" s e B f a st] by (simp add: propagated_def)
next
  fix e ids st
  assume "fst (ExecutorForId \<lparr>ex_identifier = cs_executor r3\<rparr> ''CreateStruct'' s) = Inr e \<and>
        requested_ids B (cs_element r3) [] = Inr ids \<and>
        exCreateStruct B (calls s) (executor e) ids = Inl st"
  then show "propagated st (cs_executor r3)
          (s\<lparr>calls := calls s @ [CreateStructEv (executor e) ids]\<rparr>) (CreateStruct B r3 s)"
    using CreateStruct_failure [of r3 "''CreateStruct''" s e B ids st] by (simp add: propagated_def)
next
  fix e src st
  assume "fst (ExecutorForId \<lparr>ex_identifier = sel_executor r4\<rparr> ''CreateSelection'' s) = Inr e \<and>
        RemoteValueToId B (sel_source_ref r4) = Inr src \<and>
        exCreateSelection B (calls s) (executor e) src (sel_index r4) = Inl st"
  then show "propagated st (sel_executor r4)
          (s\<lparr>calls := calls s @ [CreateSelectionEv (executor e) src (sel_index r4)]\<rparr>)
          (CreateSelection B r4 s)"
    using CreateSelection_failure [of r4 "''CreateSelection''" s e B src st]
    by (simp add: propagated_def)
next
  fix e i
  assume "fst (ExecutorForId \<lparr>ex_identifier = cp_executor r5\<rparr> ''Compute'' s) = Inr e \<and>
        RemoteValueToId B (cp_value_ref r5) = Inr i \<and>
        \<not> ok (fst (exMaterialize B (calls s) (executor e) i))"
  then show "propagated (fst (exMaterialize B (calls s) (executor e) i)) (cp_executor r5)
          (s\<lparr>calls := calls s @ [MaterializeEv (executor e) i]\<rparr>) (Compute B r5 s)"
    using Compute_failure [of r5 "''Compute''" s e B i] by (simp add: propagated_def)
next
  fix ex j
  assume a: "fst (RequireExecutor ''Dispose'' (d_executor r6) s) = Inr ex \<and>
        j < length (decodable B (d_value_ref r6)) \<and>
        \<not> ok (dispose_reply B s ex (decodable B (d_value_ref r6)) j) \<and>
        (\<forall>i<j. ok (dispose_reply B s ex (decodable B (d_value_ref r6)) i))"
  then have "Dispose B r6 s = dispose_ids B ex (decodable B (d_value_ref r6)) s"
    by (simp add: Dispose_resolved)
  then show "Dispose B r6 s =
          (absl_to_grpc (dispose_reply B s ex (decodable B (d_value_ref r6)) j),
           s\<lparr>calls := calls s @ map (DisposeEv ex) (take (Suc j) (decodable B (d_value_ref r6)))\<rparr>)"
    using a dispose_ids_first_failure [of j "decodable B (d_value_ref r6)" B s ex] by simp
qed

theorem eviction_by_handler_witness:
  "propagated (Status kFailedPrecondition ''lost'') ''clients=3/svc/0''
     (demo_one\<lparr>calls := calls demo_one @ [CreateValueEv 0 0]\<rparr>)
     (CreateValue demo_backend demo_cv_lost demo_one)
   \<and> propagated (Status kFailedPrecondition ''lost'') ''clients=3/svc/0''
       (demo_one\<lparr>calls := calls demo_one @ [CreateCallEv 0 0 None]\<rparr>)
       (CreateCall demo_backend demo_cc_lost demo_one)
   \<and> propagated (Status kFailedPrecondition ''lost'') ''clients=3/svc/0''
       (demo_one\<lparr>calls := calls demo_one @ [CreateStructEv 0 []]\<rparr>)
       (CreateStruct demo_backend demo_cs_lost demo_one)
   \<and> propagated (Status kFailedPrecondition ''lost'') ''clients=3/svc/0''
       (demo_one\<lparr>calls := calls demo_one @ [CreateSelectionEv 0 0 0]\<rparr>)
       (CreateSelection demo_backend demo_sel_lost demo_one)
   \<and> propagated (Status kFailedPrecondition ''lost'') ''clients=3/svc/0''
       (demo_one\<lparr>calls := calls demo_one @ [MaterializeEv 0 0]\<rparr>)
       (Compute demo_backend demo_cp_lost demo_one)
   \<and> Dispose demo_backend demo_dispose_lost demo_one =
       (grpc_Status FAILED_PRECONDITION ''lost'',
        demo_one\<lparr>calls := calls demo_one @ [DisposeEv 0 0]\<rparr>)"
proof -
  note T = eviction_by_handler [of demo_cv_lost demo_one demo_backend demo_cc_lost demo_cs_lost
      demo_sel_lost demo_cp_lost demo_dispose_lost]
  have h1: "fst (ExecutorForId \<lparr>ex_identifier = cv_executor demo_cv_lost\<rparr> ''CreateValue'' demo_one)
        = Inr demo_entry \<and>
      exCreateValue demo_backend (calls demo_one) (executor demo_entry) (cv_payload demo_cv_lost)
        = Inl (Status kFailedPrecondition ''lost'')"
    by (simp add: demo_cv_lost_def demo_one_lookup demo_lost)
  have h2: "fst (ExecutorForId \<lparr>ex_identifier = cc_executor demo_cc_lost\<rparr> ''CreateCall'' demo_one)
        = Inr demo_entry \<and>
      RemoteValueToId demo_backend (cc_function_ref demo_cc_lost) = Inr 0 \<and>
      argument_decodes demo_backend demo_cc_lost None \<and>
      exCreateCall demo_backend (calls demo_one) (executor demo_entry) 0 None
        = Inl (Status kFailedPrecondition ''lost'')"
    by (simp add: demo_cc_lost_def demo_one_lookup demo_decode_0 argument_decodes_def demo_lost)
  have h3: "fst (ExecutorForId \<lparr>ex_identifier = cs_executor demo_cs_lost\<rparr> ''CreateStruct'' demo_one)
        = Inr demo_entry \<and>
      requested_ids demo_backend (cs_element demo_cs_lost) [] = Inr [] \<and>
      exCreateStruct demo_backend (calls demo_one) (executor demo_entry) []
        = Inl (Status kFailedPrecondition ''lost'')"
    by (simp add: demo_cs_lost_def demo_one_lookup demo_lost)
  have h4: "fst (ExecutorForId \<lparr>ex_identifier = sel_executor demo_sel_lost\<rparr> ''CreateSelection'' demo_one)
        = Inr demo_entry \<and>
      RemoteValueToId demo_backend (sel_source_ref demo_sel_lost) = Inr 0 \<and>
      exCreateSelection demo_backend (calls demo_one) (executor demo_entry) 0 (sel_index demo_sel_lost)
        = Inl (Status kFailedPrecondition ''lost'')"
    by (simp add: demo_sel_lost_def demo_one_lookup demo_decode_0 demo_lost)
  have m5: "exMaterialize demo_backend (calls demo_one) (executor demo_entry) 0
        = (Status kFailedPrecondition ''lost'', None)"
    by (simp add: demo_lost)
  have h5: "fst (ExecutorForId \<lparr>ex_identifier = cp_executor demo_cp_lost\<rparr> ''Compute'' demo_one)
        = Inr demo_entry \<and>
      RemoteValueToId demo_backend (cp_value_ref demo_cp_lost) = Inr 0 \<and>
      \<not> ok (fst (exMaterialize demo_backend (calls demo_one) (executor demo_entry) 0))"
    by (simp add: demo_cp_lost_def demo_one_lookup demo_decode_0 m5 ok_def)
  have d6: "decodable demo_backend [\<lparr>ref_id = ''0''\<rparr>] = [0]"
    by (simp add: decodable_def map_filter_simps demo_backend_def demo_atoi_values)
  have r6: "dispose_reply demo_backend demo_one 0 [0] 0 = Status kFailedPrecondition ''lost''"
    by (simp add: dispose_reply_def demo_lost)
  have h6: "fst (RequireExecutor ''Dispose'' (d_executor demo_dispose_lost) demo_one) = Inr 0 \<and>
        0 < length (decodable demo_backend (d_value_ref demo_dispose_lost)) \<and>
        \<not> ok (dispose_reply demo_backend demo_one 0
                (decodable demo_backend (d_value_ref demo_dispose_lost)) 0) \<and>
        (\<forall>i<0. ok (dispose_reply demo_backend demo_one 0
                (decodable demo_backend (d_value_ref demo_dispose_lost)) i))"
    by (simp add: d6 r6 ok_def demo_dispose_lost_def demo_one_resolves)
  have e: "executor demo_entry = 0" by (simp add: demo_entry_def)
  show ?thesis
    using T [THEN conjunct1, rule_format, OF h1]
      T [THEN conjunct2, THEN conjunct1, rule_format, OF h2]
      T [THEN conjunct2, THEN conjunct2, THEN conjunct1, rule_format, OF h3]
      T [THEN conjunct2, THEN conjunct2, THEN conjunct2, THEN conjunct1, rule_format, OF h4]
      T [THEN conjunct2, THEN conjunct2, THEN conjunct2, THEN conjunct2, THEN conjunct1,
         rule_format, OF h5]
      T [THEN conjunct2, THEN conjunct2, THEN conjunct2, THEN conjunct2, THEN conjunct2,
         rule_format, OF h6]
    by (simp add: e demo_lost d6 r6 absl_to_grpc_def demo_cv_lost_def demo_cc_lost_def demo_cs_lost_def
        demo_sel_lost_def demo_cp_lost_def demo_dispose_lost_def)
qed

text \<open>
  Claim C5. \<open>ExecutorForId\<close> returns a failed-precondition error (never a not-found
  error) for an identifier absent from the keys-to-cardinalities table, an internal
  error for an identifier whose cardinality string has no entry in the executors table,
  and the stored entry otherwise; in every case the state of the service is returned
  as it was: both tables, every refcount, the index.
\<close>

theorem ExecutorForId_cases:
  "(keys_to_cardinalities s (ex_identifier ex_id) = None \<longrightarrow>
      (\<exists>m. fst (ExecutorForId ex_id method_name s) = Inl (Status kFailedPrecondition m)) \<and>
      (\<forall>m. fst (ExecutorForId ex_id method_name s) \<noteq> Inl (Status kNotFound m)))
   \<and> (\<forall>cs. keys_to_cardinalities s (ex_identifier ex_id) = Some cs \<and> executors s cs = None \<longrightarrow>
         (\<exists>m. fst (ExecutorForId ex_id method_name s) = Inl (Status kInternal m)))
   \<and> (\<forall>cs e. keys_to_cardinalities s (ex_identifier ex_id) = Some cs \<and> executors s cs = Some e \<longrightarrow>
         fst (ExecutorForId ex_id method_name s) = Inr e)
   \<and> snd (ExecutorForId ex_id method_name s) = s"
  by (simp add: ExecutorForId_def FailedPreconditionError_def InternalError_def
      split: option.splits)

theorem ExecutorForId_cases_witness:
  "(\<exists>m. fst (ExecutorForId \<lparr>ex_identifier = ''clients=3/svc/7''\<rparr> ''Compute'' demo_one)
          = Inl (Status kFailedPrecondition m))
   \<and> (\<exists>m. fst (ExecutorForId \<lparr>ex_identifier = ''k''\<rparr> ''Compute'' demo_dangling)
          = Inl (Status kInternal m))
   \<and> fst (ExecutorForId \<lparr>ex_identifier = ''clients=3/svc/0''\<rparr> ''Compute'' demo_one)
       = Inr \<lparr>executor = 0, remote_refcount = 1, executor_id = ''clients=3/svc/0''\<rparr>
   \<and> snd (ExecutorForId \<lparr>ex_identifier = ''clients=3/svc/0''\<rparr> ''Compute'' demo_one) = demo_one"
  using ExecutorForId_cases [of demo_one "\<lparr>ex_identifier = ''clients=3/svc/7''\<rparr>" "''Compute''"]
    ExecutorForId_cases [of demo_dangling "\<lparr>ex_identifier = ''k''\<rparr>" "''Compute''"]
    ExecutorForId_cases [of demo_one "\<lparr>ex_identifier = ''clients=3/svc/0''\<rparr>" "''Compute''"]
  by (simp add: demo_one_eq demo_dangling_def)



text \<open>
  Claim C7. Disposal of targets that are already gone succeeds without effect:
  \<open>DisposeExecutor\<close> on an identifier absent from the registry returns success and
  leaves the state as it was (at the resolver and through the handler), and a
  \<open>Dispose\<close> request whose executor does not resolve, whatever the error of the
  lookup, returns success with the state as it was, so with no call on any executor.
\<close>

theorem dispose_of_gone_targets:
  "(keys_to_cardinalities s (ex_identifier ex_id) = None \<longrightarrow>
      DisposeExecutor ex_id s = (OkStatus, s) \<and>
      Service_DisposeExecutor \<lparr>de_executor = ex_identifier ex_id\<rparr> s = (grpc_Status_OK, s))
   \<and> (\<forall>g. fst (RequireExecutor ''Dispose'' (d_executor request) s) = Inl g \<longrightarrow>
         Dispose B request s = (grpc_Status_OK, s))"
  by (auto simp: DisposeExecutor_def Service_DisposeExecutor_def Dispose_def RequireExecutor_def
      ExecutorForId_def absl_to_grpc_def OkStatus_def grpc_Status_OK_def
      split: option.splits prod.splits sum.splits)

theorem dispose_of_gone_targets_witness:
  "DisposeExecutor \<lparr>ex_identifier = ''clients=3/svc/9''\<rparr> demo_one = (OkStatus, demo_one)
   \<and> Service_DisposeExecutor \<lparr>de_executor = ''clients=3/svc/9''\<rparr> demo_one = (grpc_Status_OK, demo_one)
   \<and> Dispose demo_backend \<lparr>d_executor = ''clients=3/svc/9'', d_value_ref = [\<lparr>ref_id = ''5''\<rparr>]\<rparr> demo_one
       = (grpc_Status_OK, demo_one)
   \<and> Dispose demo_backend \<lparr>d_executor = ''k'', d_value_ref = [\<lparr>ref_id = ''5''\<rparr>]\<rparr> demo_dangling
       = (grpc_Status_OK, demo_dangling)"
  using dispose_of_gone_targets [of demo_one "\<lparr>ex_identifier = ''clients=3/svc/9''\<rparr>"
      "\<lparr>d_executor = ''clients=3/svc/9'', d_value_ref = [\<lparr>ref_id = ''5''\<rparr>]\<rparr>" demo_backend]
    dispose_of_gone_targets [of demo_dangling "\<lparr>ex_identifier = ''zz''\<rparr>"
      "\<lparr>d_executor = ''k'', d_value_ref = [\<lparr>ref_id = ''5''\<rparr>]\<rparr>" demo_backend]
  by (simp add: demo_one_eq demo_dangling_def RequireExecutor_def ExecutorForId_def)

text \<open>
  Claim C8. For a \<open>Dispose\<close> request whose executor resolves, the calls sent to the
  executor are dispose calls for the value references that decode, in the order of the
  request; a reference that does not decode is skipped and never sent. If every dispose
  sent succeeds, all of them are sent and the handler returns success. Otherwise the
  handler stops at the first dispose that fails, sends none of the later references,
  and returns that error, translated.
\<close>

theorem Dispose_batch:
  assumes "fst (RequireExecutor ''Dispose'' (d_executor request) s) = Inr ex"
  shows
    "((\<forall>j<length (decodable B (d_value_ref request)).
         ok (dispose_reply B s ex (decodable B (d_value_ref request)) j)) \<longrightarrow>
       Dispose B request s =
         (grpc_Status_OK,
          s\<lparr>calls := calls s @ map (DisposeEv ex) (decodable B (d_value_ref request))\<rparr>))
     \<and> (\<forall>j. j < length (decodable B (d_value_ref request)) \<and>
            \<not> ok (dispose_reply B s ex (decodable B (d_value_ref request)) j) \<and>
            (\<forall>i<j. ok (dispose_reply B s ex (decodable B (d_value_ref request)) i)) \<longrightarrow>
          Dispose B request s =
            (absl_to_grpc (dispose_reply B s ex (decodable B (d_value_ref request)) j),
             s\<lparr>calls := calls s @
                  map (DisposeEv ex) (take (Suc j) (decodable B (d_value_ref request)))\<rparr>))"
  using dispose_ids_all_ok [of "decodable B (d_value_ref request)" B s ex]
    dispose_ids_first_failure [of _ "decodable B (d_value_ref request)" B s ex]
  by (simp add: Dispose_resolved [OF assms])

theorem Dispose_batch_witness:
  "fst (RequireExecutor ''Dispose'' (d_executor demo_dispose) demo_one) = Inr 0
   \<and> Dispose demo_backend demo_dispose_ok demo_one =
       (grpc_Status_OK, demo_one\<lparr>calls := calls demo_one @ [DisposeEv 0 7, DisposeEv 0 8]\<rparr>)
   \<and> Dispose demo_backend demo_dispose demo_one =
       (grpc_Status UNAVAILABLE ''busy'',
        demo_one\<lparr>calls := calls demo_one @ [DisposeEv 0 7, DisposeEv 0 1]\<rparr>)"
proof -
  have r1: "fst (RequireExecutor ''Dispose'' (d_executor demo_dispose) demo_one) = Inr 0"
    and r2: "fst (RequireExecutor ''Dispose'' (d_executor demo_dispose_ok) demo_one) = Inr 0"
    by (simp_all add: demo_dispose_def demo_dispose_ok_def demo_one_resolves)
  have ok2: "\<forall>j<length [7, 8::nat]. ok (dispose_reply demo_backend demo_one 0 [7, 8] j)"
    by (simp add: dispose_reply_def demo_backend_def ok_def OkStatus_def less_Suc_eq)
  have bad: "(1::nat) < length [7, 1, 8::nat] \<and>
      \<not> ok (dispose_reply demo_backend demo_one 0 [7, 1, 8] 1) \<and>
      (\<forall>i<1. ok (dispose_reply demo_backend demo_one 0 [7, 1, 8] i))"
    by (simp add: dispose_reply_def demo_backend_def ok_def OkStatus_def)
  have reply: "absl_to_grpc (dispose_reply demo_backend demo_one 0 [7, 1, 8] 1)
      = grpc_Status UNAVAILABLE ''busy''"
    by (simp add: dispose_reply_def demo_backend_def absl_to_grpc_def)
  show ?thesis
    using r1 ok2 bad reply
      Dispose_batch [OF r2, of demo_backend, unfolded demo_decodable, THEN conjunct1]
      Dispose_batch [OF r1, of demo_backend, unfolded demo_decodable, THEN conjunct2, rule_format, of 1]
    by simp
qed

text \<open>
  Claim C9 (two-table consistency, invariant I1). In every state of the registry that is
  reachable from empty tables by any sequence of \<open>ExecutorForRequirements\<close>,
  \<open>ExecutorForId\<close>, \<open>DisposeExecutor\<close> and \<open>DestroyExecutor\<close> calls (with any
  activity of the collaborators in between), every cardinality string that is a value of
  the keys-to-cardinalities table has an entry in the executors table.
\<close>

theorem two_table_consistency:
  "reachable B s \<Longrightarrow> keys_to_cardinalities s k = Some cs \<Longrightarrow> \<exists>e. executors s cs = Some e"
proof -
  assume "reachable B s" and k: "keys_to_cardinalities s k = Some cs"
  then have "registry_inv s" by (simp add: reachable_inv)
  then show ?thesis using k unfolding registry_inv_def by blast
qed

theorem two_table_consistency_witness:
  "reachable demo_backend demo_one
   \<and> keys_to_cardinalities demo_one ''clients=3/svc/0'' = Some ''clients=3''
   \<and> (\<exists>e. executors demo_one ''clients=3'' = Some e)"
proof -
  have k: "keys_to_cardinalities demo_one ''clients=3/svc/0'' = Some ''clients=3''"
    by (simp add: demo_one_eq)
  show ?thesis
    using demo_one_reachable k two_table_consistency [OF demo_one_reachable k] by simp
qed

text \<open>
  Claim C10 (frame). A \<open>CreateValue\<close>, \<open>CreateCall\<close>, \<open>CreateStruct\<close>, \<open>CreateSelection\<close> or
  \<open>Compute\<close> request that does not end in a failed-precondition error of the executor
  leaves the registry as it was: the same entries in both tables, with the same
  refcounts, the same index. A \<open>Dispose\<close> request leaves it as it was in every case.
\<close>

theorem registry_frame:
  "(\<not> evicting_failure B s (snd (CreateValue B r1 s)) \<longrightarrow>
      same_registry s (snd (CreateValue B r1 s)))
   \<and> (\<not> evicting_failure B s (snd (CreateCall B r2 s)) \<longrightarrow>
      same_registry s (snd (CreateCall B r2 s)))
   \<and> (\<not> evicting_failure B s (snd (CreateStruct B r3 s)) \<longrightarrow>
      same_registry s (snd (CreateStruct B r3 s)))
   \<and> (\<not> evicting_failure B s (snd (CreateSelection B r4 s)) \<longrightarrow>
      same_registry s (snd (CreateSelection B r4 s)))
   \<and> (\<not> evicting_failure B s (snd (Compute B r5 s)) \<longrightarrow>
      same_registry s (snd (Compute B r5 s)))
   \<and> same_registry s (snd (Dispose B r6 s))"
  using CreateValue_frame [of B s r1] CreateCall_frame [of B s r2] CreateStruct_frame [of B s r3]
    CreateSelection_frame [of B s r4] Compute_frame [of B s r5] Dispose_frame [of s B r6]
  by blast

theorem registry_frame_witness:
  "\<not> evicting_failure demo_backend demo_one (snd (CreateValue demo_backend demo_cv_busy demo_one))
   \<and> same_registry demo_one (snd (CreateValue demo_backend demo_cv_busy demo_one))
   \<and> \<not> evicting_failure demo_backend demo_one (snd (CreateCall demo_backend demo_cc_busy demo_one))
   \<and> same_registry demo_one (snd (CreateCall demo_backend demo_cc_busy demo_one))
   \<and> \<not> evicting_failure demo_backend demo_one (snd (CreateStruct demo_backend demo_cs_busy demo_one))
   \<and> same_registry demo_one (snd (CreateStruct demo_backend demo_cs_busy demo_one))
   \<and> \<not> evicting_failure demo_backend demo_one
         (snd (CreateSelection demo_backend demo_sel_busy demo_one))
   \<and> same_registry demo_one (snd (CreateSelection demo_backend demo_sel_busy demo_one))
   \<and> \<not> evicting_failure demo_backend demo_one (snd (Compute demo_backend demo_cp_busy demo_one))
   \<and> same_registry demo_one (snd (Compute demo_backend demo_cp_busy demo_one))
   \<and> same_registry demo_one (snd (Dispose demo_backend demo_dispose_lost demo_one))"
proof -
  note T = registry_frame [of demo_backend demo_one demo_cv_busy demo_cc_busy demo_cs_busy
      demo_sel_busy demo_cp_busy demo_dispose_lost]
  have n1: "\<not> evicting_failure demo_backend demo_one
              (snd (CreateValue demo_backend demo_cv_busy demo_one))"
    by (simp add: demo_busy_results evicting_failure_def new_calls_def demo_busy)
  have n2: "\<not> evicting_failure demo_backend demo_one
              (snd (CreateCall demo_backend demo_cc_busy demo_one))"
    by (simp add: demo_busy_results evicting_failure_def new_calls_def demo_busy)
  have n3: "\<not> evicting_failure demo_backend demo_one
              (snd (CreateStruct demo_backend demo_cs_busy demo_one))"
    by (simp add: demo_busy_results evicting_failure_def new_calls_def demo_busy)
  have n4: "\<not> evicting_failure demo_backend demo_one
              (snd (CreateSelection demo_backend demo_sel_busy demo_one))"
    by (simp add: demo_busy_results evicting_failure_def new_calls_def demo_busy)
  have n5: "\<not> evicting_failure demo_backend demo_one
              (snd (Compute demo_backend demo_cp_busy demo_one))"
    by (simp add: demo_busy_results evicting_failure_def new_calls_def demo_busy ok_def)
  show ?thesis
    using n1 n2 n3 n4 n5
      T [THEN conjunct1, rule_format, OF n1]
      T [THEN conjunct2, THEN conjunct1, rule_format, OF n2]
      T [THEN conjunct2, THEN conjunct2, THEN conjunct1, rule_format, OF n3]
      T [THEN conjunct2, THEN conjunct2, THEN conjunct2, THEN conjunct1, rule_format, OF n4]
      T [THEN conjunct2, THEN conjunct2, THEN conjunct2, THEN conjunct2, THEN conjunct1,
         rule_format, OF n5]
      T [THEN conjunct2, THEN conjunct2, THEN conjunct2, THEN conjunct2, THEN conjunct2]
    by blast
qed

end
